theory Spec2Isabelle
  imports Main "HOL-Library.Word" "HOL-Library.Signed_Division"
begin

unbundle bit_operations_syntax

section \<open>The AXP20x battery fuel gauge driver (drivers/power/axp20x\_fuel\_gauge.c)\<close>

text \<open>
  The driver keeps one \<^verbatim>\<open>struct axp20x_battery_power\<close> per device and talks to the
  PMIC through a register map. The embedding passes the structure explicitly: every
  driver function takes the structure and returns the updated one, together with its
  return value where it has one.
\<close>

subsection \<open>C integers\<close>

text \<open>
  A C \<^verbatim>\<open>int\<close> is modelled as an \<^typ>\<open>int\<close>; sums, differences and products are
  reduced to 32 bits in two's complement, as the kernel's build does
  (\<^verbatim>\<open>-fno-strict-overflow\<close>). Division truncates towards zero; every divisor of the
  driver is a positive constant, so a quotient never leaves the range of its dividend.
\<close>

definition s32 :: "int \<Rightarrow> int" where
  "s32 x = signed_take_bit 31 x"

definition c_add :: "int \<Rightarrow> int \<Rightarrow> int" where
  "c_add a b = s32 (a + b)"

definition c_sub :: "int \<Rightarrow> int \<Rightarrow> int" where
  "c_sub a b = s32 (a - b)"

definition c_mul :: "int \<Rightarrow> int \<Rightarrow> int" where
  "c_mul a b = s32 (a * b)"

definition c_div :: "int \<Rightarrow> int \<Rightarrow> int" where
  "c_div a b = a sdiv b"

definition int32 :: "int \<Rightarrow> bool" where
  "int32 x = (- 2147483648 \<le> x \<and> x < 2147483648)"

subsection \<open>The register interface\<close>

text \<open>
  The error codes a driver function returns. \<open>ERR c\<close> is a negative return value
  \<open>c\<close> that is no named code: \<^verbatim>\<open>axp20x_battery_max_chg_current\<close> returns a current
  or a negative error code in one \<^verbatim>\<open>int\<close>, and its callers take every negative value for
  an error.
\<close>

datatype error = EIO | EINVAL | EBUSY | ERR int

text \<open>
  The registers the driver names. Their addresses are macros of
  \<^verbatim>\<open>linux/mfd/axp20x.h\<close>, which is not among the sources, so they stay symbolic:
  distinct names are distinct registers, and \<open>Next r\<close> is the register at address
  \<^verbatim>\<open>r + 1\<close>.
\<close>

datatype reg =
    AXP20X_PWR_INPUT_STATUS
  | AXP20X_PWR_OP_MODE
  | AXP20X_VBUS_IPSOUT_MGMT
  | AXP20X_CHRG_CTRL1
  | AXP20X_APS_WARN_L2
  | AXP20X_FG_RES
  | AXP20X_BATT_V_H
  | AXP20X_BATT_CHRG_I_H
  | AXP20X_BATT_DISCHRG_I_H
  | Next reg

text \<open>
  The register map: the 8-bit content of every register, the script of bus faults
  (the head says whether the next access fails; an empty script means that no further
  access fails), and the log of the \<^verbatim>\<open>regmap_update_bits\<close> calls issued so far, each
  with its register, mask and value as passed. During one call of the driver the
  registers change through the driver's own updates only.
\<close>

record regmap =
  cells :: "reg \<Rightarrow> 8 word"
  faults :: "bool list"
  calls :: "(reg \<times> int \<times> int) list"

definition next_fault :: "regmap \<Rightarrow> bool" where
  "next_fault m = (case faults m of [] \<Rightarrow> False | f # fs \<Rightarrow> f)"

definition consume :: "regmap \<Rightarrow> regmap" where
  "consume m = m\<lparr>faults := (case faults m of [] \<Rightarrow> [] | f # fs \<Rightarrow> fs)\<rparr>"

text \<open>Modelled from the spec: \<^verbatim>\<open>regmap_read\<close> is the kernel's register-map read, not
  among the sources. The spec's Register Interface is a synchronous read of an
  addressable 8-bit register that may fail with an I/O error on any call.
\<close>

definition regmap_read :: "regmap \<Rightarrow> reg \<Rightarrow> regmap \<times> (error + int)" where
  "regmap_read m r =
     (consume m, if next_fault m then Inl EIO else Inr (uint (cells m r)))"

text \<open>Modelled from the spec: \<^verbatim>\<open>regmap_update_bits\<close> is the kernel's bit-field
  read-modify-write, not among the sources. It replaces the bits of the register
  selected by the mask with those of the value, or fails with an I/O error and leaves
  the register as it was.
\<close>

definition regmap_update_bits :: "regmap \<Rightarrow> reg \<Rightarrow> int \<Rightarrow> int \<Rightarrow> regmap \<times> (error + unit)" where
  "regmap_update_bits m r msk val =
     (let m1 = (consume m)\<lparr>calls := calls m @ [(r, msk, val)]\<rparr> in
      if next_fault m then (m1, Inl EIO)
      else (m1\<lparr>cells := (cells m)(r := (cells m r AND NOT (word_of_int msk))
                                       OR (word_of_int val AND word_of_int msk))\<rparr>,
            Inr ()))"

text \<open>Modelled from the spec: \<^verbatim>\<open>axp20x_read_variable_width\<close> is declared in
  \<^verbatim>\<open>linux/mfd/axp20x.h\<close>, not among the sources. A 12-bit read composes two 8-bit
  registers, the high byte and then the low nibble; it fails when either read fails.
  The driver only asks for 12 bits.
\<close>

definition axp20x_read_variable_width :: "regmap \<Rightarrow> reg \<Rightarrow> regmap \<times> (error + int)" where
  "axp20x_read_variable_width m r =
     (case regmap_read m r of
        (m1, Inl e) \<Rightarrow> (m1, Inl e)
      | (m1, Inr hi) \<Rightarrow>
          (case regmap_read m1 (Next r) of
             (m2, Inl e) \<Rightarrow> (m2, Inl e)
           | (m2, Inr lo) \<Rightarrow> (m2, Inr (push_bit 4 hi OR (lo AND 15)))))"

subsection \<open>The driver's structure\<close>

text \<open>
  The health values the driver uses, of \<^verbatim>\<open>enum POWER_SUPPLY_HEALTH_*\<close>, and the
  status values of \<^verbatim>\<open>enum POWER_SUPPLY_STATUS_*\<close>.
\<close>

datatype health =
    POWER_SUPPLY_HEALTH_UNKNOWN
  | POWER_SUPPLY_HEALTH_GOOD
  | POWER_SUPPLY_HEALTH_OVERHEAT
  | POWER_SUPPLY_HEALTH_DEAD
  | POWER_SUPPLY_HEALTH_COLD

datatype status =
    POWER_SUPPLY_STATUS_UNKNOWN
  | POWER_SUPPLY_STATUS_CHARGING
  | POWER_SUPPLY_STATUS_DISCHARGING
  | POWER_SUPPLY_STATUS_NOT_CHARGING
  | POWER_SUPPLY_STATUS_FULL

text \<open>
  \<^verbatim>\<open>struct axp20x_battery_power\<close>. The register map is held in the structure, as the
  pointer is in C. \<open>has_supply\<close> says whether the \<^verbatim>\<open>supply\<close> pointer is set (the
  power supply is registered), and \<open>changed\<close> counts the calls of
  \<^verbatim>\<open>power_supply_changed\<close>, the notifications to the telemetry consumer. The delayed
  work is scheduling only and is left out.
\<close>

record battery_power =
  regmap :: regmap
  has_supply :: bool
  changed :: nat
  health :: health
  capacity :: int
  percent :: int
  charge_user_imax :: int
  tbatt_min :: int
  tbatt_max :: int

definition power_supply_changed :: "battery_power \<Rightarrow> battery_power" where
  "power_supply_changed p = p\<lparr>changed := Suc (changed p)\<rparr>"

subsection \<open>The periodic poll\<close>

text \<open>
  The code after the label \<^verbatim>\<open>out\<close> of \<^verbatim>\<open>axp20x_battery_poll\<close>: store the sample when it
  differs from the stored one, and notify when the supply is registered.
\<close>

definition poll_out :: "battery_power \<Rightarrow> health \<Rightarrow> int \<Rightarrow> battery_power" where
  "poll_out p h pc =
     (if health p \<noteq> h \<or> percent p \<noteq> pc then
        (let p1 = p\<lparr>health := h, percent := pc\<rparr> in
         if has_supply p1 then power_supply_changed p1 else p1)
      else p)"

definition axp20x_battery_poll :: "battery_power \<Rightarrow> battery_power" where
  "axp20x_battery_poll p =
     (case regmap_read (regmap p) AXP20X_PWR_OP_MODE of
        (m1, Inl e) \<Rightarrow> p\<lparr>regmap := m1\<rparr>
      | (m1, Inr reg) \<Rightarrow>
          if reg AND 32 = 0 then
            poll_out (p\<lparr>regmap := m1\<rparr>) POWER_SUPPLY_HEALTH_UNKNOWN 0
          else
            (case axp20x_read_variable_width m1 AXP20X_BATT_V_H of
               (m2, rv) \<Rightarrow>
                 (let h1 = (case rv of
                              Inl e \<Rightarrow> POWER_SUPPLY_HEALTH_UNKNOWN
                            | Inr v \<Rightarrow>
                                if 0 \<le> v \<and> c_mul v 1100 < 2000000
                                then POWER_SUPPLY_HEALTH_DEAD
                                else POWER_SUPPLY_HEALTH_UNKNOWN)
                  in
                  (case regmap_read m2 AXP20X_FG_RES of
                     (m3, rp) \<Rightarrow>
                       (let pc = (case rp of Inl e \<Rightarrow> 0 | Inr v \<Rightarrow> v AND 127) in
                        if tbatt_min p \<noteq> 0 \<or> tbatt_max p \<noteq> 0 then
                          (case axp20x_read_variable_width m3 AXP20X_BATT_V_H of
                             (m4, rt) \<Rightarrow>
                               (let h2 = (case rt of
                                            Inl e \<Rightarrow> h1
                                          | Inr t \<Rightarrow>
                                              if 0 \<le> t \<and> t < tbatt_min p
                                              then POWER_SUPPLY_HEALTH_COLD
                                              else if 0 \<le> t \<and> t > tbatt_max p
                                              then POWER_SUPPLY_HEALTH_OVERHEAT
                                              else h1)
                                in poll_out (p\<lparr>regmap := m4\<rparr>) h2 pc))
                        else poll_out (p\<lparr>regmap := m3\<rparr>) h1 pc)))))"

subsection \<open>Reading properties\<close>

text \<open>
  The properties of \<^verbatim>\<open>axp20x_battery_power_properties\<close>; \<open>POWER_SUPPLY_PROP_POWER_NOW\<close>
  stands for every property the driver has no case for. A property value is the
  union's \<^verbatim>\<open>intval\<close>, read at the type the property has.
\<close>

datatype psp =
    POWER_SUPPLY_PROP_PRESENT
  | POWER_SUPPLY_PROP_ONLINE
  | POWER_SUPPLY_PROP_STATUS
  | POWER_SUPPLY_PROP_VOLTAGE_NOW
  | POWER_SUPPLY_PROP_CURRENT_NOW
  | POWER_SUPPLY_PROP_CURRENT_MAX
  | POWER_SUPPLY_PROP_HEALTH
  | POWER_SUPPLY_PROP_TECHNOLOGY
  | POWER_SUPPLY_PROP_VOLTAGE_MAX_DESIGN
  | POWER_SUPPLY_PROP_VOLTAGE_MIN_DESIGN
  | POWER_SUPPLY_PROP_CHARGE_FULL_DESIGN
  | POWER_SUPPLY_PROP_CAPACITY
  | POWER_SUPPLY_PROP_TEMP
  | POWER_SUPPLY_PROP_TEMP_ALERT_MIN
  | POWER_SUPPLY_PROP_TEMP_ALERT_MAX
  | POWER_SUPPLY_PROP_POWER_NOW

datatype propval =
    Intval int
  | Statusval status
  | Healthval health
  | POWER_SUPPLY_TECHNOLOGY_LION

definition axp20x_battery_uv_to_temp :: "battery_power \<Rightarrow> int \<Rightarrow> int" where
  "axp20x_battery_uv_to_temp devdata uv = uv"

text \<open>
  \<^verbatim>\<open>axp20x_battery_power_get_property\<close>. \<open>val\<close> is what the caller's union holds
  before the call: the inner \<^verbatim>\<open>default\<close> of the maximum-design-voltage case leaves it
  as it is and returns 0. A failed variable-width read is the negative \<^verbatim>\<open>reg\<close> of
  the source.
\<close>

definition axp20x_battery_power_get_property ::
  "battery_power \<Rightarrow> psp \<Rightarrow> propval \<Rightarrow> battery_power \<times> (error + propval)" where
  "axp20x_battery_power_get_property p prop val =
     (case prop of
        POWER_SUPPLY_PROP_CURRENT_MAX \<Rightarrow>
          (case regmap_read (regmap p) AXP20X_CHRG_CTRL1 of
             (m1, Inl e) \<Rightarrow> (p\<lparr>regmap := m1\<rparr>, Inl e)
           | (m1, Inr reg) \<Rightarrow>
               (p\<lparr>regmap := m1\<rparr>, Inr (Intval (c_add (c_mul (reg AND 15) 100000) 300000))))
      | POWER_SUPPLY_PROP_VOLTAGE_MAX_DESIGN \<Rightarrow>
          (case regmap_read (regmap p) AXP20X_CHRG_CTRL1 of
             (m1, Inl e) \<Rightarrow> (p\<lparr>regmap := m1\<rparr>, Inl e)
           | (m1, Inr reg) \<Rightarrow>
               (p\<lparr>regmap := m1\<rparr>,
                if reg AND 96 = 0 then Inr (Intval 4100000)
                else if reg AND 96 = 32 then Inr (Intval 4150000)
                else if reg AND 96 = 64 then Inr (Intval 4200000)
                else if reg AND 96 = 96 then Inr (Intval 4360000)
                else Inr val))
      | POWER_SUPPLY_PROP_VOLTAGE_MIN_DESIGN \<Rightarrow>
          (case regmap_read (regmap p) AXP20X_APS_WARN_L2 of
             (m1, Inl e) \<Rightarrow> (p\<lparr>regmap := m1\<rparr>, Inl e)
           | (m1, Inr reg) \<Rightarrow>
               (p\<lparr>regmap := m1\<rparr>,
                Inr (Intval (c_add 2867200 (c_mul (c_mul 1400 reg) 4)))))
      | POWER_SUPPLY_PROP_TECHNOLOGY \<Rightarrow> (p, Inr POWER_SUPPLY_TECHNOLOGY_LION)
      | POWER_SUPPLY_PROP_PRESENT \<Rightarrow>
          (case regmap_read (regmap p) AXP20X_PWR_OP_MODE of
             (m1, Inl e) \<Rightarrow> (p\<lparr>regmap := m1\<rparr>, Inl e)
           | (m1, Inr reg) \<Rightarrow>
               (p\<lparr>regmap := m1\<rparr>, Inr (Intval (if reg AND 32 \<noteq> 0 then 1 else 0))))
      | POWER_SUPPLY_PROP_ONLINE \<Rightarrow>
          (case regmap_read (regmap p) AXP20X_PWR_OP_MODE of
             (m1, Inl e) \<Rightarrow> (p\<lparr>regmap := m1\<rparr>, Inl e)
           | (m1, Inr reg) \<Rightarrow>
               (p\<lparr>regmap := m1\<rparr>, Inr (Intval (if reg AND 32 \<noteq> 0 then 1 else 0))))
      | POWER_SUPPLY_PROP_STATUS \<Rightarrow>
          (case regmap_read (regmap p) AXP20X_PWR_INPUT_STATUS of
             (m1, Inl e) \<Rightarrow> (p\<lparr>regmap := m1\<rparr>, Inl e)
           | (m1, Inr reg) \<Rightarrow>
               if reg AND 4 \<noteq> 0 then
                 (p\<lparr>regmap := m1\<rparr>, Inr (Statusval POWER_SUPPLY_STATUS_CHARGING))
               else
                 (case axp20x_read_variable_width m1 AXP20X_BATT_DISCHRG_I_H of
                    (m2, Inl e) \<Rightarrow> (p\<lparr>regmap := m2\<rparr>, Inl e)
                  | (m2, Inr reg) \<Rightarrow>
                      (let reg = c_mul reg 500 in
                       (p\<lparr>regmap := m2\<rparr>,
                        if reg < 2000 \<and> percent p = 100
                        then Inr (Statusval POWER_SUPPLY_STATUS_FULL)
                        else if reg < 2000
                        then Inr (Statusval POWER_SUPPLY_STATUS_NOT_CHARGING)
                        else Inr (Statusval POWER_SUPPLY_STATUS_DISCHARGING)))))
      | POWER_SUPPLY_PROP_CURRENT_NOW \<Rightarrow>
          (case regmap_read (regmap p) AXP20X_PWR_INPUT_STATUS of
             (m1, Inl e) \<Rightarrow> (p\<lparr>regmap := m1\<rparr>, Inl e)
           | (m1, Inr reg) \<Rightarrow>
               (case (if reg AND 4 \<noteq> 0
                      then axp20x_read_variable_width m1 AXP20X_BATT_CHRG_I_H
                      else axp20x_read_variable_width m1 AXP20X_BATT_DISCHRG_I_H) of
                  (m2, Inl e) \<Rightarrow> (p\<lparr>regmap := m2\<rparr>, Inl e)
                | (m2, Inr reg) \<Rightarrow> (p\<lparr>regmap := m2\<rparr>, Inr (Intval (c_mul reg 500)))))
      | POWER_SUPPLY_PROP_HEALTH \<Rightarrow> (p, Inr (Healthval (health p)))
      | POWER_SUPPLY_PROP_VOLTAGE_NOW \<Rightarrow>
          (case axp20x_read_variable_width (regmap p) AXP20X_BATT_V_H of
             (m1, Inl e) \<Rightarrow> (p\<lparr>regmap := m1\<rparr>, Inl e)
           | (m1, Inr reg) \<Rightarrow> (p\<lparr>regmap := m1\<rparr>, Inr (Intval (c_mul reg 1100))))
      | POWER_SUPPLY_PROP_CHARGE_FULL_DESIGN \<Rightarrow> (p, Inr (Intval (capacity p)))
      | POWER_SUPPLY_PROP_CAPACITY \<Rightarrow>
          (case regmap_read (regmap p) AXP20X_FG_RES of
             (m1, Inl e) \<Rightarrow> (p\<lparr>regmap := m1\<rparr>, Inl e)
           | (m1, Inr reg) \<Rightarrow> (p\<lparr>regmap := m1\<rparr>, Inr (Intval (reg AND 127))))
      | POWER_SUPPLY_PROP_TEMP \<Rightarrow>
          (case axp20x_read_variable_width (regmap p) AXP20X_BATT_V_H of
             (m1, Inl e) \<Rightarrow> (p\<lparr>regmap := m1\<rparr>, Inl e)
           | (m1, Inr reg) \<Rightarrow>
               (p\<lparr>regmap := m1\<rparr>,
                Inr (Intval (axp20x_battery_uv_to_temp p (c_mul reg 800)))))
      | POWER_SUPPLY_PROP_TEMP_ALERT_MIN \<Rightarrow>
          (p, Inr (Intval (axp20x_battery_uv_to_temp p (tbatt_min p))))
      | POWER_SUPPLY_PROP_TEMP_ALERT_MAX \<Rightarrow>
          (p, Inr (Intval (axp20x_battery_uv_to_temp p (tbatt_max p))))
      | POWER_SUPPLY_PROP_POWER_NOW \<Rightarrow> (p, Inl EINVAL))"

subsection \<open>The charge policy\<close>

text \<open>
  \<^verbatim>\<open>axp20x_battery_max_chg_current\<close>. The source returns the current or the error code
  of the failed read in one \<^verbatim>\<open>int\<close>; here the error is \<open>Inl\<close>. The value can still be
  negative, when \<open>capacity\<close> is.
\<close>

definition axp20x_battery_max_chg_current ::
  "battery_power \<Rightarrow> battery_power \<times> (error + int)" where
  "axp20x_battery_max_chg_current p =
     (case regmap_read (regmap p) AXP20X_PWR_INPUT_STATUS of
        (m1, Inl e) \<Rightarrow> (p\<lparr>regmap := m1\<rparr>, Inl e)
      | (m1, Inr status) \<Rightarrow>
          if status AND 128 \<noteq> 0 \<and> status AND 64 \<noteq> 0 then
            (p\<lparr>regmap := m1\<rparr>, Inr (c_div (capacity p) 2))
          else if status AND 32 \<noteq> 0 \<and> status AND 16 \<noteq> 0 then
            (case regmap_read m1 AXP20X_VBUS_IPSOUT_MGMT of
               (m2, Inl e) \<Rightarrow> (p\<lparr>regmap := m2\<rparr>, Inl e)
             | (m2, Inr vbusmgt) \<Rightarrow>
                 (p\<lparr>regmap := m2\<rparr>,
                  if vbusmgt AND 3 = 2 then Inr 0
                  else if vbusmgt AND 3 = 1 then Inr 300000
                  else if vbusmgt AND 3 = 0 then Inr 600000
                  else if vbusmgt AND 3 = 3 then Inr (c_div (capacity p) 2)
                  else Inr 0))
          else (p\<lparr>regmap := m1\<rparr>, Inr 0))"

text \<open>
  \<^verbatim>\<open>axp20x_battery_chg_reconfig\<close>. The results of the register updates are dropped, as
  in the source. The supply it is called with is the one it notifies.
\<close>

definition axp20x_battery_chg_reconfig :: "battery_power \<Rightarrow> battery_power" where
  "axp20x_battery_chg_reconfig p =
     (case axp20x_battery_max_chg_current p of
        (p1, Inl e) \<Rightarrow> p1
      | (p1, Inr charge_max) \<Rightarrow>
          if charge_max < 0 then p1
          else if charge_max = 0 then
            (case regmap_update_bits (regmap p1) AXP20X_PWR_OP_MODE 64 0 of
               (m1, ret) \<Rightarrow> power_supply_changed (p1\<lparr>regmap := m1\<rparr>))
          else
            (let cm1 = (if charge_user_imax p1 < charge_max
                        then charge_user_imax p1 else charge_max);
                 cm2 = (if c_div (c_sub cm1 300000) 100000 > 15
                        then 300000 + 15 * 100000 else cm1)
             in
             (case regmap_update_bits (regmap p1) AXP20X_CHRG_CTRL1 15
                     (c_div (c_sub cm2 300000) 100000) of
                (m1, ret) \<Rightarrow>
                  (case regmap_update_bits m1 AXP20X_PWR_OP_MODE 64 64 of
                     (m2, ret) \<Rightarrow> power_supply_changed (p1\<lparr>regmap := m2\<rparr>)))))"

subsection \<open>Writing properties\<close>

text \<open>
  \<^verbatim>\<open>axp20x_battery_power_set_property\<close>. A value of another type than the property's
  is an enumerator where a voltage or a current is expected, a small number that the
  source refuses with \<^verbatim>\<open>-EINVAL\<close>.
\<close>

definition axp20x_battery_power_set_property ::
  "battery_power \<Rightarrow> psp \<Rightarrow> propval \<Rightarrow> battery_power \<times> (error + unit)" where
  "axp20x_battery_power_set_property p prop val =
     (case prop of
        POWER_SUPPLY_PROP_STATUS \<Rightarrow>
          (if val = Statusval POWER_SUPPLY_STATUS_CHARGING then
             (case axp20x_battery_max_chg_current p of
                (p1, Inl e) \<Rightarrow> (p1, Inl e)
              | (p1, Inr ret) \<Rightarrow>
                  if ret < 0 then (p1, Inl (ERR ret))
                  else if ret = 0 then (p1, Inl EBUSY)
                  else
                    (case regmap_update_bits (regmap p1) AXP20X_PWR_OP_MODE 64 64 of
                       (m1, Inl e) \<Rightarrow> (p1\<lparr>regmap := m1\<rparr>, Inl e)
                     | (m1, Inr u) \<Rightarrow>
                         (axp20x_battery_chg_reconfig (p1\<lparr>regmap := m1\<rparr>), Inr ())))
           else if val = Statusval POWER_SUPPLY_STATUS_NOT_CHARGING then
             (case regmap_update_bits (regmap p) AXP20X_PWR_OP_MODE 64 0 of
                (m1, ret) \<Rightarrow> (p\<lparr>regmap := m1\<rparr>, ret))
           else (p, Inl EINVAL))
      | POWER_SUPPLY_PROP_VOLTAGE_MIN_DESIGN \<Rightarrow> (p, Inl EINVAL)
      | POWER_SUPPLY_PROP_VOLTAGE_MAX_DESIGN \<Rightarrow>
          (if val = Intval 4100000 then
             (case regmap_update_bits (regmap p) AXP20X_CHRG_CTRL1 96 0 of
                (m1, ret) \<Rightarrow> (p\<lparr>regmap := m1\<rparr>, ret))
           else if val = Intval 4150000 then
             (case regmap_update_bits (regmap p) AXP20X_CHRG_CTRL1 96 32 of
                (m1, ret) \<Rightarrow> (p\<lparr>regmap := m1\<rparr>, ret))
           else if val = Intval 4200000 then
             (case regmap_update_bits (regmap p) AXP20X_CHRG_CTRL1 96 64 of
                (m1, ret) \<Rightarrow> (p\<lparr>regmap := m1\<rparr>, ret))
           else (p, Inl EINVAL))
      | POWER_SUPPLY_PROP_CURRENT_MAX \<Rightarrow>
          (case val of
             Intval v \<Rightarrow>
               if c_div (c_sub v 300000) 100000 > 15 then (p, Inl EINVAL)
               else if v < 300000 then (p, Inl EINVAL)
               else (axp20x_battery_chg_reconfig (p\<lparr>charge_user_imax := v\<rparr>), Inr ())
           | _ \<Rightarrow> (p, Inl EINVAL))
      | _ \<Rightarrow> (p, Inl EINVAL))"

subsection \<open>The interrupt handlers\<close>

text \<open>
  Every handler logs through \<^verbatim>\<open>power->supply->dev\<close> and notifies
  \<^verbatim>\<open>power->supply\<close> without testing the pointer: the probe requests the interrupts
  only once the supply is registered. A handler run without a supply dereferences a
  null pointer, which is \<open>None\<close> here. The results of the register updates are dropped.
\<close>

definition axp20x_irq_batt_plugin :: "battery_power \<Rightarrow> battery_power option" where
  "axp20x_irq_batt_plugin p =
     (let p1 = p\<lparr>health := POWER_SUPPLY_HEALTH_UNKNOWN\<rparr> in
      case regmap_update_bits (regmap p1) AXP20X_PWR_OP_MODE 64 64 of
        (m1, ret) \<Rightarrow>
          if has_supply p1 then Some (power_supply_changed (p1\<lparr>regmap := m1\<rparr>))
          else None)"

definition axp20x_irq_batt_removal :: "battery_power \<Rightarrow> battery_power option" where
  "axp20x_irq_batt_removal p =
     (let p1 = p\<lparr>health := POWER_SUPPLY_HEALTH_UNKNOWN\<rparr> in
      case regmap_update_bits (regmap p1) AXP20X_PWR_OP_MODE 64 0 of
        (m1, ret) \<Rightarrow>
          if has_supply p1 then Some (power_supply_changed (p1\<lparr>regmap := m1\<rparr>))
          else None)"

definition axp20x_irq_batt_activation :: "battery_power \<Rightarrow> battery_power option" where
  "axp20x_irq_batt_activation p =
     (let p1 = p\<lparr>health := POWER_SUPPLY_HEALTH_UNKNOWN\<rparr> in
      if has_supply p1 then Some (power_supply_changed p1) else None)"

definition axp20x_irq_batt_activated :: "battery_power \<Rightarrow> battery_power option" where
  "axp20x_irq_batt_activated p =
     (let p1 = p\<lparr>health := POWER_SUPPLY_HEALTH_GOOD\<rparr> in
      if has_supply p1 then Some (power_supply_changed p1) else None)"

definition axp20x_irq_batt_charging :: "battery_power \<Rightarrow> battery_power option" where
  "axp20x_irq_batt_charging p =
     (if has_supply p then Some (power_supply_changed p) else None)"

definition axp20x_irq_batt_charged :: "battery_power \<Rightarrow> battery_power option" where
  "axp20x_irq_batt_charged p =
     (if has_supply p then Some (power_supply_changed p) else None)"

definition axp20x_irq_batt_high_temp :: "battery_power \<Rightarrow> battery_power option" where
  "axp20x_irq_batt_high_temp p =
     (let p1 = p\<lparr>health := POWER_SUPPLY_HEALTH_OVERHEAT\<rparr> in
      case regmap_update_bits (regmap p1) AXP20X_PWR_OP_MODE 64 0 of
        (m1, ret) \<Rightarrow>
          if has_supply p1 then Some (power_supply_changed (p1\<lparr>regmap := m1\<rparr>))
          else None)"

definition axp20x_irq_batt_low_temp :: "battery_power \<Rightarrow> battery_power option" where
  "axp20x_irq_batt_low_temp p =
     (let p1 = p\<lparr>health := POWER_SUPPLY_HEALTH_COLD\<rparr> in
      if has_supply p1 then Some (power_supply_changed p1) else None)"

definition axp20x_irq_batt_chg_curr_low :: "battery_power \<Rightarrow> battery_power option" where
  "axp20x_irq_batt_chg_curr_low p =
     (if has_supply p then Some (power_supply_changed p) else None)"

definition axp20x_irq_power_low :: "battery_power \<Rightarrow> battery_power option" where
  "axp20x_irq_power_low p =
     (if has_supply p then Some (power_supply_changed p) else None)"

definition axp20x_irq_power_low_crit :: "battery_power \<Rightarrow> battery_power option" where
  "axp20x_irq_power_low_crit p =
     (if has_supply p then Some (power_supply_changed p) else None)"

text \<open>
  The interrupts of the probe's \<^verbatim>\<open>irq_names\<close> and the handler \<^verbatim>\<open>irq_funcs\<close> gives each.
\<close>

datatype irq_name =
    BATT_HOT
  | BATT_COLD
  | BATT_PLUGIN
  | BATT_REMOVAL
  | BATT_ACTIVATE
  | BATT_ACTIVATED
  | BATT_CHARGING
  | BATT_CHARGED
  | BATT_CHG_CURR_LOW
  | BATT_POWER_LOW_WARN
  | BATT_POWER_LOW_CRIT

fun irq_funcs :: "irq_name \<Rightarrow> battery_power \<Rightarrow> battery_power option" where
  "irq_funcs BATT_HOT = axp20x_irq_batt_high_temp"
| "irq_funcs BATT_COLD = axp20x_irq_batt_low_temp"
| "irq_funcs BATT_PLUGIN = axp20x_irq_batt_plugin"
| "irq_funcs BATT_REMOVAL = axp20x_irq_batt_removal"
| "irq_funcs BATT_ACTIVATE = axp20x_irq_batt_activation"
| "irq_funcs BATT_ACTIVATED = axp20x_irq_batt_activated"
| "irq_funcs BATT_CHARGING = axp20x_irq_batt_charging"
| "irq_funcs BATT_CHARGED = axp20x_irq_batt_charged"
| "irq_funcs BATT_CHG_CURR_LOW = axp20x_irq_batt_chg_curr_low"
| "irq_funcs BATT_POWER_LOW_WARN = axp20x_irq_power_low"
| "irq_funcs BATT_POWER_LOW_CRIT = axp20x_irq_power_low_crit"

section \<open>The specification's notions\<close>

text \<open>
  The raw 12-bit value of a register pair, as the specification reads it: the high
  byte, then the low nibble.
\<close>

definition raw12 :: "regmap \<Rightarrow> reg \<Rightarrow> int" where
  "raw12 m r = uint (cells m r) * 16 + uint (cells m (Next r)) mod 16"

text \<open>Whether the \<open>n\<close>-th bus access from now on fails.\<close>

definition fault_at :: "regmap \<Rightarrow> nat \<Rightarrow> bool" where
  "fault_at m n = (n < length (faults m) \<and> faults m ! n)"

text \<open>
  The bus current-limit field (\<^verbatim>\<open>AXP20X_VBUC_CLIMIT_*\<close>: 0 is 900 mA, 1 is 500 mA,
  2 is 100 mA, 3 is no limit) and the specification's table of the maximum charge
  current, over the four source-status bits, the field and the design capacity. The
  halved capacity is C's quotient, truncated towards zero.
\<close>

datatype climit = CLIMIT_900mA | CLIMIT_500mA | CLIMIT_100mA | CLIMIT_NONE

definition climit_field :: "int \<Rightarrow> climit" where
  "climit_field f =
     (if f = 0 then CLIMIT_900mA
      else if f = 1 then CLIMIT_500mA
      else if f = 2 then CLIMIT_100mA
      else CLIMIT_NONE)"

definition max_charge_current_spec ::
  "bool \<Rightarrow> bool \<Rightarrow> bool \<Rightarrow> bool \<Rightarrow> climit \<Rightarrow> int \<Rightarrow> int" where
  "max_charge_current_spec ac_present ac_available bus_present bus_available field capacity_design =
     (if ac_present \<and> ac_available then capacity_design sdiv 2
      else if bus_present \<and> bus_available then
        (case field of
           CLIMIT_100mA \<Rightarrow> 0
         | CLIMIT_500mA \<Rightarrow> 300000
         | CLIMIT_900mA \<Rightarrow> 600000
         | CLIMIT_NONE \<Rightarrow> capacity_design sdiv 2)
      else 0)"

text \<open>
  The specification's event table: for every interrupt, the health it sets (if any)
  and what it does to the charging-enable bit (set, clear, or nothing).
\<close>

definition event_table :: "irq_name \<Rightarrow> health option \<times> bool option" where
  "event_table e =
     (case e of
        BATT_PLUGIN \<Rightarrow> (Some POWER_SUPPLY_HEALTH_UNKNOWN, Some True)
      | BATT_REMOVAL \<Rightarrow> (Some POWER_SUPPLY_HEALTH_UNKNOWN, Some False)
      | BATT_ACTIVATE \<Rightarrow> (Some POWER_SUPPLY_HEALTH_UNKNOWN, None)
      | BATT_ACTIVATED \<Rightarrow> (Some POWER_SUPPLY_HEALTH_GOOD, None)
      | BATT_CHARGING \<Rightarrow> (None, None)
      | BATT_CHARGED \<Rightarrow> (None, None)
      | BATT_HOT \<Rightarrow> (Some POWER_SUPPLY_HEALTH_OVERHEAT, Some False)
      | BATT_COLD \<Rightarrow> (Some POWER_SUPPLY_HEALTH_COLD, None)
      | BATT_CHG_CURR_LOW \<Rightarrow> (None, None)
      | BATT_POWER_LOW_WARN \<Rightarrow> (None, None)
      | BATT_POWER_LOW_CRIT \<Rightarrow> (None, None))"

text \<open>
  One write of the charging-enable bit, bit 6 of \<^verbatim>\<open>PWR_OP_MODE\<close>: the call is issued
  and takes one bus access; unless that access fails, the bit is set or cleared and
  every other bit and register stays as it was.
\<close>

definition write_charging_enable :: "bool \<Rightarrow> regmap \<Rightarrow> regmap" where
  "write_charging_enable en m =
     \<lparr>cells = (if fault_at m 0 then cells m
               else (cells m)(AXP20X_PWR_OP_MODE :=
                      (if en then set_bit 6 (cells m AXP20X_PWR_OP_MODE)
                       else unset_bit 6 (cells m AXP20X_PWR_OP_MODE)))),
      faults = drop 1 (faults m),
      calls = calls m @ [(AXP20X_PWR_OP_MODE, 64, if en then 64 else 0)]\<rparr>"

text \<open>The effect of an event by the table, followed by one notification.\<close>

definition event_effect :: "irq_name \<Rightarrow> battery_power \<Rightarrow> battery_power" where
  "event_effect e p =
     p\<lparr>health := (case fst (event_table e) of None \<Rightarrow> health p | Some h \<Rightarrow> h),
       regmap := (case snd (event_table e) of
                    None \<Rightarrow> regmap p
                  | Some en \<Rightarrow> write_charging_enable en (regmap p)),
       changed := Suc (changed p)\<rparr>"

text \<open>
  The target-voltage field of the charge control register, bits 6 and 5
  (\<^verbatim>\<open>AXP20X_CHRG_CTRL1_TGT_*\<close>): 0 is 4.1 V, 1 is 4.15 V, 2 is 4.2 V, 3 is 4.36 V.
\<close>

definition tgt_volt_field :: "int \<Rightarrow> 8 word" where
  "tgt_volt_field v =
     (if v = 4100000 then 0 else if v = 4150000 then 1 else if v = 4200000 then 2 else 3)"

text \<open>Whether a temperature range was configured: one of the two bounds is not zero.\<close>

definition temp_configured :: "battery_power \<Rightarrow> bool" where
  "temp_configured p = (tbatt_min p \<noteq> 0 \<or> tbatt_max p \<noteq> 0)"

text \<open>
  The 4-bit target-current field of a current of at least 300000, clamped to at most
  300000 + 15 * 100000: steps of 100000 above 300000. One write of that field, the low
  nibble of the charge control register: the call is issued and takes one bus access;
  unless that access fails, the nibble holds the field and the other bits stay.
\<close>

definition current_field :: "int \<Rightarrow> int" where
  "current_field c = (min c 1800000 - 300000) div 100000"

definition write_current_field :: "int \<Rightarrow> regmap \<Rightarrow> regmap" where
  "write_current_field f m =
     \<lparr>cells = (if fault_at m 0 then cells m
               else (cells m)(AXP20X_CHRG_CTRL1 :=
                      (cells m AXP20X_CHRG_CTRL1 AND NOT 15) OR word_of_int f)),
      faults = drop 1 (faults m),
      calls = calls m @ [(AXP20X_CHRG_CTRL1, 15, f)]\<rparr>"

text \<open>
  The maximum charge current the table gives for the device's registers and the
  design capacity; the register updates issued between two states of the driver; and
  the updates one reconfiguration issues, given the computed maximum (or its error)
  and the user's ceiling.
\<close>

definition policy_current :: "battery_power \<Rightarrow> int" where
  "policy_current p =
     (let st = cells (regmap p) AXP20X_PWR_INPUT_STATUS;
          vb = cells (regmap p) AXP20X_VBUS_IPSOUT_MGMT
      in max_charge_current_spec (bit st 7) (bit st 6) (bit st 5) (bit st 4)
           (climit_field (uint vb mod 4)) (capacity p))"

definition issued :: "battery_power \<Rightarrow> battery_power \<Rightarrow> (reg \<times> int \<times> int) list" where
  "issued p q = drop (length (calls (regmap p))) (calls (regmap q))"

definition reconfig_writes :: "(error + int) \<Rightarrow> int \<Rightarrow> (reg \<times> int \<times> int) list" where
  "reconfig_writes r imax =
     (case r of
        Inl e \<Rightarrow> []
      | Inr c \<Rightarrow>
          if c < 0 then []
          else if c = 0 then [(AXP20X_PWR_OP_MODE, 64, 0)]
          else
            (let cm1 = min c imax;
                 cm2 = (if c_div (c_sub cm1 300000) 100000 > 15 then 1800000 else cm1)
             in [(AXP20X_CHRG_CTRL1, 15, c_div (c_sub cm2 300000) 100000),
                 (AXP20X_PWR_OP_MODE, 64, 64)]))"

section \<open>Sample device states\<close>

text \<open>
  A battery is present (\<^verbatim>\<open>PWR_OP_MODE\<close> bit 5), its voltage reads raw 1000 (1.1 V), the
  gauge reads 55 percent, the bus source is present and available with the 500 mA
  limit, and the charge control register holds target voltage 4.36 V and current
  field 2. The structure has a registered supply, a design capacity of 2000 mAh and a
  temperature range of 2000 to 3000.
\<close>

definition sample_cells :: "reg \<Rightarrow> 8 word" where
  "sample_cells =
     (\<lambda>r. 0)(AXP20X_PWR_OP_MODE := 32,
             AXP20X_BATT_V_H := 62,
             Next AXP20X_BATT_V_H := 8,
             AXP20X_FG_RES := 55,
             AXP20X_PWR_INPUT_STATUS := 48,
             AXP20X_VBUS_IPSOUT_MGMT := 1,
             AXP20X_CHRG_CTRL1 := 98)"

definition sample_power :: "bool list \<Rightarrow> battery_power" where
  "sample_power fs =
     \<lparr>regmap = \<lparr>cells = sample_cells, faults = fs, calls = []\<rparr>,
      has_supply = True,
      changed = 0,
      health = POWER_SUPPLY_HEALTH_UNKNOWN,
      capacity = 2000000,
      percent = 55,
      charge_user_imax = 2000000,
      tbatt_min = 2000,
      tbatt_max = 3000\<rparr>"

text \<open>The sample device with no external source: the source-status register is 0.\<close>

definition on_battery_power :: "bool list \<Rightarrow> battery_power" where
  "on_battery_power fs =
     (sample_power fs)
       \<lparr>regmap := \<lparr>cells = sample_cells(AXP20X_PWR_INPUT_STATUS := 0),
                   faults = fs, calls = []\<rparr>\<rparr>"

text \<open>
  The sample device on mains (source status 192: present and available) with a
  400 mAh battery, whose ceiling is the configured default of 400000.
\<close>

definition small_battery_power :: battery_power where
  "small_battery_power =
     (sample_power [])
       \<lparr>regmap := \<lparr>cells = sample_cells(AXP20X_PWR_INPUT_STATUS := 192),
                   faults = [], calls = []\<rparr>,
        capacity := 400000,
        charge_user_imax := 400000\<rparr>"

section \<open>Auxiliary facts\<close>

subsection \<open>Integers and bits\<close>

lemma s32_id: "int32 x \<Longrightarrow> s32 x = x"
  unfolding s32_def int32_def by (rule signed_take_bit_int_eq_self) simp_all

lemma compose12: "push_bit 4 hi OR (lo AND 15) = hi * 16 + lo mod (16::int)"
proof -
  have "lo AND 15 = take_bit 4 lo"
    by (simp add: take_bit_eq_mask mask_eq_exp_minus_1)
  then have "push_bit 4 hi OR (lo AND 15) = concat_bit 4 lo hi"
    by (simp add: concat_bit_def or.commute)
  also have "\<dots> = take_bit 4 lo + push_bit 4 hi"
    by (rule concat_bit_eq)
  finally show ?thesis
    by (simp add: take_bit_eq_mod push_bit_eq_mult)
qed

lemma and3_mod4: "(k :: int) AND 3 = k mod 4"
proof -
  have "k AND 3 = take_bit 2 k"
    by (simp add: take_bit_eq_mask mask_eq_exp_minus_1)
  then show ?thesis
    by (simp add: take_bit_eq_mod)
qed

lemma uint8_range: "0 \<le> uint (w :: 8 word) \<and> uint w < 256"
  using uint_bounded [of w] by simp

lemma uint_and_bit: "(uint (w :: 8 word) AND 2 ^ n \<noteq> 0) = bit w n"
  by (auto simp add: and_exp_eq_0_iff_not_bit bit_uint_iff dest: bit_imp_le_length)

lemma uint_and_bits:
  "(uint (w :: 8 word) AND 128 \<noteq> 0) = bit w 7"
  "(uint (w :: 8 word) AND 64 \<noteq> 0) = bit w 6"
  "(uint (w :: 8 word) AND 32 \<noteq> 0) = bit w 5"
  "(uint (w :: 8 word) AND 16 \<noteq> 0) = bit w 4"
  "(uint (w :: 8 word) AND 4 \<noteq> 0) = bit w 2"
  using uint_and_bit [of w 7] uint_and_bit [of w 6] uint_and_bit [of w 5]
        uint_and_bit [of w 4] uint_and_bit [of w 2]
  by simp_all

subsection \<open>The register interface\<close>

lemma consume_fields [simp]:
  "cells (consume m) = cells m" "calls (consume m) = calls m"
  by (simp_all add: consume_def)

lemma next_fault_0: "next_fault m = fault_at m 0"
  by (simp add: next_fault_def fault_at_def split: list.splits)

lemma next_fault_1: "next_fault (consume m) = fault_at m 1"
  by (cases "faults m"; cases "tl (faults m)")
     (auto simp add: next_fault_def consume_def fault_at_def)

lemma no_fault_read [simp]:
  "faults m = [] \<Longrightarrow> regmap_read m r = (m, Inr (uint (cells m r)))"
  by (simp add: regmap_read_def consume_def next_fault_def)

lemma no_fault_read12 [simp]:
  "faults m = [] \<Longrightarrow> axp20x_read_variable_width m r = (m, Inr (raw12 m r))"
  by (simp add: axp20x_read_variable_width_def raw12_def compose12)

lemma raw12_range: "0 \<le> raw12 m r \<and> raw12 m r < 4096"
proof -
  have h: "0 \<le> uint (cells m r) \<and> uint (cells m r) < 256"
    by (rule uint8_range)
  have l: "0 \<le> uint (cells m (Next r)) mod 16 \<and> uint (cells m (Next r)) mod 16 < 16"
    by simp
  show ?thesis unfolding raw12_def using h l by linarith
qed

lemma c_mul_raw12:
  assumes "0 \<le> k" "k \<le> 1100"
  shows "c_mul (raw12 m r) k = raw12 m r * k"
proof -
  have "0 \<le> raw12 m r * k"
    using raw12_range [of m r] assms by simp
  moreover have "raw12 m r * k \<le> 4095 * 1100"
    using raw12_range [of m r] assms by (intro mult_mono) simp_all
  ultimately have "int32 (raw12 m r * k)"
    by (simp add: int32_def)
  then show ?thesis
    by (simp add: c_mul_def s32_id)
qed

lemmas sample_defs = sample_power_def sample_cells_def

lemmas regmap_defs = regmap_read_def regmap_update_bits_def consume_def next_fault_def
  axp20x_read_variable_width_def

lemma consume_drop: "consume m = m\<lparr>faults := drop 1 (faults m)\<rparr>"
  by (simp add: consume_def drop_Suc split: list.splits)

lemma consume_nil: "faults m = [] \<Longrightarrow> faults (consume m) = []"
  by (simp add: consume_def)

subsection \<open>The bit fields of the charger registers\<close>

lemma bit_64: "bit (64 :: int) n = (n = 6)"
  using bit_exp_iff [where ?'a = int, of 6 n] by auto

lemma bit_96: "bit (96 :: int) n = (n = 5 \<or> n = 6)"
proof -
  have "(96 :: int) = 2 ^ 5 OR 2 ^ 6"
    by simp
  then have "bit (96 :: int) n = bit (2 ^ 5 OR 2 ^ 6 :: int) n"
    by (rule arg_cong)
  then show ?thesis
    by (simp only: bit_or_iff bit_exp_iff) auto
qed

lemma set_bit6: "(w AND NOT 64) OR 64 = set_bit 6 (w :: 8 word)"
  by (rule bit_eqI) (auto simp add: bit_simps bit_64)

lemma unset_bit6: "w AND NOT 64 = unset_bit 6 (w :: 8 word)"
  by (rule bit_eqI) (auto simp add: bit_simps bit_64)

lemma update_charging:
  "fst (regmap_update_bits m AXP20X_PWR_OP_MODE 64 (if en then 64 else 0))
     = write_charging_enable en m"
  by (cases m)
     (simp add: regmap_update_bits_def write_charging_enable_def Let_def next_fault_0
        consume_drop set_bit6 [symmetric] unset_bit6 [symmetric])

lemma field_and: "((w AND NOT 96) OR f) AND 96 = f AND (96 :: 8 word)"
  by (rule bit_eqI) (auto simp add: bit_simps)

lemma uint_and96: "uint (w :: 8 word) AND 96 = uint (w AND 96)"
  by (simp add: uint_and)

lemma and96_both: "bit w 5 \<Longrightarrow> bit w 6 \<Longrightarrow> (w :: 8 word) AND 96 = 96"
  by (rule bit_eqI) (auto simp add: bit_simps bit_96)

lemma get_vmax:
  assumes "faults (regmap p) = []"
  shows "snd (axp20x_battery_power_get_property p POWER_SUPPLY_PROP_VOLTAGE_MAX_DESIGN val)
     = (let f = cells (regmap p) AXP20X_CHRG_CTRL1 AND 96 in
        if f = 0 then Inr (Intval 4100000)
        else if f = 32 then Inr (Intval 4150000)
        else if f = 64 then Inr (Intval 4200000)
        else if f = 96 then Inr (Intval 4360000)
        else Inr val)"
proof -
  have e0: "(uint w = 0) = (w = 0)" for w :: "8 word"
    by (simp add: uint_0_iff)
  have e: "(uint w = 32) = (w = 32)" "(uint w = 64) = (w = 64)" "(uint w = 96) = (w = 96)"
    for w :: "8 word"
    using word_uint_eq_iff [of w 32] word_uint_eq_iff [of w 64] word_uint_eq_iff [of w 96]
    by simp_all
  show ?thesis
    using assms
    by (simp add: axp20x_battery_power_get_property_def uint_and96 Let_def e0 e)
qed

lemma set_vmax_unfold:
  "axp20x_battery_power_set_property p POWER_SUPPLY_PROP_VOLTAGE_MAX_DESIGN (Intval v) =
     (if v \<in> {4100000, 4150000, 4200000} then
        (p\<lparr>regmap := (consume (regmap p))
             \<lparr>calls := calls (regmap p)
                  @ [(AXP20X_CHRG_CTRL1, 96, uint (push_bit 5 (tgt_volt_field v)))],
              cells := (if fault_at (regmap p) 0 then cells (regmap p)
                else (cells (regmap p))(AXP20X_CHRG_CTRL1 :=
                       (cells (regmap p) AXP20X_CHRG_CTRL1 AND NOT 96)
                       OR push_bit 5 (tgt_volt_field v)))\<rparr>\<rparr>,
         if fault_at (regmap p) 0 then Inl EIO else Inr ())
      else (p, Inl EINVAL))"
  by (simp add: axp20x_battery_power_set_property_def regmap_update_bits_def Let_def
        next_fault_0 tgt_volt_field_def)

subsection \<open>The interrupt handlers and the event table\<close>

lemma irq_funcs_effect:
  assumes "has_supply p"
  shows "irq_funcs e p = Some (event_effect e p)"
proof -
  have u1: "regmap_update_bits (regmap p) AXP20X_PWR_OP_MODE 64 64 = (m1, ret)
              \<Longrightarrow> m1 = write_charging_enable True (regmap p)" for m1 ret
    using update_charging [of "regmap p" True] by simp
  have u0: "regmap_update_bits (regmap p) AXP20X_PWR_OP_MODE 64 0 = (m1, ret)
              \<Longrightarrow> m1 = write_charging_enable False (regmap p)" for m1 ret
    using update_charging [of "regmap p" False] by simp
  show ?thesis
    using assms
    by (cases e)
       (auto simp add: event_effect_def event_table_def power_supply_changed_def Let_def
          axp20x_irq_batt_plugin_def axp20x_irq_batt_removal_def axp20x_irq_batt_activation_def
          axp20x_irq_batt_activated_def axp20x_irq_batt_charging_def axp20x_irq_batt_charged_def
          axp20x_irq_batt_high_temp_def axp20x_irq_batt_low_temp_def
          axp20x_irq_batt_chg_curr_low_def axp20x_irq_power_low_def
          axp20x_irq_power_low_crit_def split: prod.splits dest: u1 u0)
qed

subsection \<open>The value of the maximum charge current\<close>

lemma max_chg_current_value:
  "snd (axp20x_battery_max_chg_current p) =
     (let m = regmap p;
          st = cells m AXP20X_PWR_INPUT_STATUS;
          vb = cells m AXP20X_VBUS_IPSOUT_MGMT
      in
      if fault_at m 0 then Inl EIO
      else if \<not> (bit st 7 \<and> bit st 6) \<and> bit st 5 \<and> bit st 4 \<and> fault_at m 1 then Inl EIO
      else Inr (max_charge_current_spec (bit st 7) (bit st 6) (bit st 5) (bit st 4)
                  (climit_field (uint vb mod 4)) (capacity p)))"
proof -
  define m where "m = regmap p"
  define vb where "vb = uint (cells m AXP20X_VBUS_IPSOUT_MGMT) mod 4"
  have "0 \<le> vb" "vb < 4"
    by (simp_all add: vb_def)
  then have f: "vb = 0 \<or> vb = 1 \<or> vb = 2 \<or> vb = 3"
    by arith
  have r1: "regmap_read m AXP20X_PWR_INPUT_STATUS
      = (consume m, if fault_at m 0 then Inl EIO
                    else Inr (uint (cells m AXP20X_PWR_INPUT_STATUS)))"
    by (simp add: regmap_read_def next_fault_0)
  have r2: "regmap_read (consume m) AXP20X_VBUS_IPSOUT_MGMT
      = (consume (consume m), if fault_at m 1 then Inl EIO
                    else Inr (uint (cells m AXP20X_VBUS_IPSOUT_MGMT)))"
    by (simp add: regmap_read_def next_fault_1 [simplified])
  show ?thesis
    unfolding axp20x_battery_max_chg_current_def Let_def m_def [symmetric] r1
    using f
    by (elim disjE)
       (auto simp add: r2 uint_and_bits and3_mod4 vb_def [symmetric]
          max_charge_current_spec_def climit_field_def c_div_def)
qed

subsection \<open>The periodic poll\<close>

lemma fault_at_consume: "fault_at (consume m) n = fault_at m (Suc n)"
  by (cases "faults m") (simp_all add: fault_at_def consume_def)

lemma read_at:
  "regmap_read m r = (consume m, if fault_at m 0 then Inl EIO else Inr (uint (cells m r)))"
  by (simp add: regmap_read_def next_fault_0)

lemma read12_at:
  "axp20x_read_variable_width m r =
     (if fault_at m 0 then (consume m, Inl EIO)
      else if fault_at m 1 then (consume (consume m), Inl EIO)
      else (consume (consume m), Inr (raw12 m r)))"
  by (simp add: axp20x_read_variable_width_def read_at fault_at_consume raw12_def compose12)

lemma poll_out_fields [simp]:
  "health (poll_out p h pc) = h"
  "percent (poll_out p h pc) = pc"
  "has_supply (poll_out p h pc) = has_supply p"
  "regmap (poll_out p h pc) = regmap p"
  "changed (poll_out p h pc) =
     (if has_supply p \<and> (health p \<noteq> h \<or> percent p \<noteq> pc) then Suc (changed p) else changed p)"
  by (simp_all add: poll_out_def power_supply_changed_def Let_def)

lemma and127_mod: "(k :: int) AND 127 = k mod 128"
proof -
  have "k AND 127 = take_bit 7 k"
    by (simp add: take_bit_eq_mask mask_eq_exp_minus_1)
  then show ?thesis
    by (simp add: take_bit_eq_mod)
qed

lemma uint_and_bits0:
  "(uint (w :: 8 word) AND 32 = 0) = (\<not> bit w 5)"
  using uint_and_bits(3) [of w] by blast

lemma poll_shape:
  "(fault_at (regmap p) 0 \<and> axp20x_battery_poll p = p\<lparr>regmap := consume (regmap p)\<rparr>)
   \<or> (\<not> fault_at (regmap p) 0
       \<and> (\<exists>m' h pc. axp20x_battery_poll p = poll_out (p\<lparr>regmap := m'\<rparr>) h pc))"
proof (cases "fault_at (regmap p) 0")
  case True
  then show ?thesis
    by (simp add: axp20x_battery_poll_def read_at)
next
  case nf: False
  obtain m2 rv where r2: "axp20x_read_variable_width (consume (regmap p)) AXP20X_BATT_V_H = (m2, rv)"
    by (cases "axp20x_read_variable_width (consume (regmap p)) AXP20X_BATT_V_H")
  obtain m3 rp where r3: "regmap_read m2 AXP20X_FG_RES = (m3, rp)"
    by (cases "regmap_read m2 AXP20X_FG_RES")
  obtain m4 rt where r4: "axp20x_read_variable_width m3 AXP20X_BATT_V_H = (m4, rt)"
    by (cases "axp20x_read_variable_width m3 AXP20X_BATT_V_H")
  have "\<exists>m' h pc. axp20x_battery_poll p = poll_out (p\<lparr>regmap := m'\<rparr>) h pc"
  proof (cases "uint (cells (regmap p) AXP20X_PWR_OP_MODE) AND 32 = 0")
    case True
    with nf have "axp20x_battery_poll p
        = poll_out (p\<lparr>regmap := consume (regmap p)\<rparr>) POWER_SUPPLY_HEALTH_UNKNOWN 0"
      by (simp add: axp20x_battery_poll_def read_at)
    then show ?thesis
      by blast
  next
    case present: False
    show ?thesis
    proof (cases "tbatt_min p \<noteq> 0 \<or> tbatt_max p \<noteq> 0")
      case True
      with nf present have "\<exists>h pc. axp20x_battery_poll p = poll_out (p\<lparr>regmap := m4\<rparr>) h pc"
        by (simp add: axp20x_battery_poll_def read_at [of "regmap p"] r2 r3 r4 Let_def
              split del: if_split) (rule exI, rule exI, rule refl)
      then show ?thesis
        by blast
    next
      case False
      with nf present have "\<exists>h pc. axp20x_battery_poll p = poll_out (p\<lparr>regmap := m3\<rparr>) h pc"
        by (simp add: axp20x_battery_poll_def read_at [of "regmap p"] r2 r3 Let_def
              split del: if_split) (rule exI, rule exI, rule refl)
      then show ?thesis
        by blast
    qed
  qed
  with nf show ?thesis
    by simp
qed

lemma poll_stored_pair:
  assumes nf: "\<not> fault_at (regmap p) 0"
  shows "health (axp20x_battery_poll (p\<lparr>health := h0, percent := c0\<rparr>))
           = health (axp20x_battery_poll p)
       \<and> percent (axp20x_battery_poll (p\<lparr>health := h0, percent := c0\<rparr>))
           = percent (axp20x_battery_poll p)"
proof -
  let ?q = "p\<lparr>health := h0, percent := c0\<rparr>"
  obtain m2 rv where r2: "axp20x_read_variable_width (consume (regmap p)) AXP20X_BATT_V_H = (m2, rv)"
    by (cases "axp20x_read_variable_width (consume (regmap p)) AXP20X_BATT_V_H")
  obtain m3 rp where r3: "regmap_read m2 AXP20X_FG_RES = (m3, rp)"
    by (cases "regmap_read m2 AXP20X_FG_RES")
  obtain m4 rt where r4: "axp20x_read_variable_width m3 AXP20X_BATT_V_H = (m4, rt)"
    by (cases "axp20x_read_variable_width m3 AXP20X_BATT_V_H")
  have "\<exists>m' h pc. axp20x_battery_poll p = poll_out (p\<lparr>regmap := m'\<rparr>) h pc
                  \<and> axp20x_battery_poll ?q = poll_out (?q\<lparr>regmap := m'\<rparr>) h pc"
  proof (cases "uint (cells (regmap p) AXP20X_PWR_OP_MODE) AND 32 = 0")
    case True
    with nf have "axp20x_battery_poll p
        = poll_out (p\<lparr>regmap := consume (regmap p)\<rparr>) POWER_SUPPLY_HEALTH_UNKNOWN 0
      \<and> axp20x_battery_poll ?q
        = poll_out (?q\<lparr>regmap := consume (regmap p)\<rparr>) POWER_SUPPLY_HEALTH_UNKNOWN 0"
      by (simp add: axp20x_battery_poll_def read_at)
    then show ?thesis
      by blast
  next
    case present: False
    show ?thesis
    proof (cases "tbatt_min p \<noteq> 0 \<or> tbatt_max p \<noteq> 0")
      case True
      with nf present have "\<exists>h pc. axp20x_battery_poll p = poll_out (p\<lparr>regmap := m4\<rparr>) h pc
                  \<and> axp20x_battery_poll ?q = poll_out (?q\<lparr>regmap := m4\<rparr>) h pc"
        by (simp add: axp20x_battery_poll_def read_at [of "regmap p"] r2 r3 r4 Let_def
              split del: if_split cong: if_cong sum.case_cong)
           (rule exI, rule exI, rule conjI, rule refl, rule refl)
      then show ?thesis
        by blast
    next
      case False
      with nf present have "\<exists>h pc. axp20x_battery_poll p = poll_out (p\<lparr>regmap := m3\<rparr>) h pc
                  \<and> axp20x_battery_poll ?q = poll_out (?q\<lparr>regmap := m3\<rparr>) h pc"
        by (simp add: axp20x_battery_poll_def read_at [of "regmap p"] r2 r3 Let_def
              split del: if_split cong: if_cong sum.case_cong)
           (rule exI, rule exI, rule conjI, rule refl, rule refl)
      then show ?thesis
        by blast
    qed
  qed
  then obtain m' h pc where "axp20x_battery_poll p = poll_out (p\<lparr>regmap := m'\<rparr>) h pc"
      "axp20x_battery_poll ?q = poll_out (?q\<lparr>regmap := m'\<rparr>) h pc"
    by blast
  then show ?thesis
    by simp
qed

lemma poll_changed_gen:
  "changed (axp20x_battery_poll p) =
     (if has_supply p \<and> (health (axp20x_battery_poll p) \<noteq> health p
                          \<or> percent (axp20x_battery_poll p) \<noteq> percent p)
      then Suc (changed p) else changed p)"
  using poll_shape [of p] by (elim disjE conjE exE) auto

subsection \<open>The charge current\<close>

lemma sdiv_nonneg: "0 \<le> a \<Longrightarrow> 0 < b \<Longrightarrow> a sdiv b = a div (b :: int)"
  by (cases "a = 0") (simp_all add: signed_divide_int_def sgn_if)

lemma c_sub_nowrap: "300000 \<le> v \<Longrightarrow> v < 2147483648 \<Longrightarrow> c_sub v 300000 = v - 300000"
  by (simp add: c_sub_def s32_id int32_def)

lemma field_of_current:
  assumes "300000 \<le> v" "v < 2147483648"
  shows "c_div (c_sub v 300000) 100000 = (v - 300000) div 100000"
  using assms by (simp add: c_sub_nowrap c_div_def sdiv_nonneg)

lemma current_max_refused:
  assumes "int32 v"
  shows "(c_div (c_sub v 300000) 100000 > 15 \<or> v < 300000) = (v < 300000 \<or> 1899999 < v)"
proof (cases "v < 300000")
  case True
  then show ?thesis by simp
next
  case False
  then have "c_div (c_sub v 300000) 100000 = (v - 300000) div 100000"
    using assms by (simp add: field_of_current int32_def)
  then show ?thesis
    using False by auto
qed

lemma max_chg_current_state:
  "\<exists>m'. fst (axp20x_battery_max_chg_current p) = p\<lparr>regmap := m'\<rparr>
        \<and> cells m' = cells (regmap p) \<and> calls m' = calls (regmap p)
        \<and> (faults (regmap p) = [] \<longrightarrow> m' = regmap p)"
proof -
  obtain m1 r1 where r1: "regmap_read (regmap p) AXP20X_PWR_INPUT_STATUS = (m1, r1)"
    by (cases "regmap_read (regmap p) AXP20X_PWR_INPUT_STATUS")
  obtain m2 r2 where r2: "regmap_read m1 AXP20X_VBUS_IPSOUT_MGMT = (m2, r2)"
    by (cases "regmap_read m1 AXP20X_VBUS_IPSOUT_MGMT")
  have m1: "m1 = consume (regmap p)"
    using r1 by (simp add: regmap_read_def)
  have m2: "m2 = consume (consume (regmap p))"
    using r2 by (simp add: regmap_read_def m1)
  have c: "faults (regmap p) = [] \<Longrightarrow> consume (regmap p) = regmap p"
    by (simp add: consume_def)
  have "fst (axp20x_battery_max_chg_current p) = p\<lparr>regmap := m1\<rparr>
        \<or> fst (axp20x_battery_max_chg_current p) = p\<lparr>regmap := m2\<rparr>"
    by (simp add: axp20x_battery_max_chg_current_def r1 r2 split: sum.splits)
  then show ?thesis
    using c by (auto simp add: m1 m2)
qed

lemma reconfig_unfold:
  "axp20x_battery_chg_reconfig p =
     (let p1 = fst (axp20x_battery_max_chg_current p) in
      case snd (axp20x_battery_max_chg_current p) of
        Inl e \<Rightarrow> p1
      | Inr charge_max \<Rightarrow>
          if charge_max < 0 then p1
          else if charge_max = 0 then
            power_supply_changed
              (p1\<lparr>regmap := fst (regmap_update_bits (regmap p1) AXP20X_PWR_OP_MODE 64 0)\<rparr>)
          else
            (let cm1 = min charge_max (charge_user_imax p1);
                 cm2 = (if c_div (c_sub cm1 300000) 100000 > 15 then 1800000 else cm1)
             in power_supply_changed
                  (p1\<lparr>regmap :=
                     fst (regmap_update_bits
                            (fst (regmap_update_bits (regmap p1) AXP20X_CHRG_CTRL1 15
                                    (c_div (c_sub cm2 300000) 100000)))
                            AXP20X_PWR_OP_MODE 64 64)\<rparr>)))"
  by (cases "axp20x_battery_max_chg_current p")
     (simp add: axp20x_battery_chg_reconfig_def Let_def min_def split: prod.splits sum.splits)

lemma reconfig_keeps_imax:
  "charge_user_imax (axp20x_battery_chg_reconfig p) = charge_user_imax p"
proof -
  obtain m' where "fst (axp20x_battery_max_chg_current p) = p\<lparr>regmap := m'\<rparr>"
    using max_chg_current_state [of p] by blast
  then show ?thesis
    by (simp add: reconfig_unfold power_supply_changed_def Let_def split: sum.splits)
qed

lemma and15_mod: "(k :: int) AND 15 = k mod 16"
proof -
  have "k AND 15 = take_bit 4 k"
    by (simp add: take_bit_eq_mask mask_eq_exp_minus_1)
  then show ?thesis
    by (simp add: take_bit_eq_mod)
qed

lemma field_word: "0 \<le> f \<Longrightarrow> f \<le> 15 \<Longrightarrow> (word_of_int f :: 8 word) AND 15 = word_of_int f"
proof -
  assume "0 \<le> f" "f \<le> 15"
  then have "f AND 15 = f"
    by (simp add: and15_mod)
  then have "(word_of_int (f AND 15) :: 8 word) = word_of_int f"
    by simp
  then show ?thesis
    by (simp add: of_int_and_eq)
qed

lemma update_current:
  assumes "0 \<le> f" "f \<le> 15"
  shows "fst (regmap_update_bits m AXP20X_CHRG_CTRL1 15 f) = write_current_field f m"
  using field_word [OF assms]
  by (cases m)
     (simp add: regmap_update_bits_def write_current_field_def Let_def next_fault_0 consume_drop)

lemma current_field_code:
  assumes "300000 \<le> c" "c < 2147483648"
  shows "c_div (c_sub (if c_div (c_sub c 300000) 100000 > 15 then 1800000 else c) 300000) 100000
           = current_field c"
    and "0 \<le> current_field c" and "current_field c \<le> 15"
  using assms by (auto simp add: field_of_current current_field_def min_def)


subsection \<open>Reconfiguring twice\<close>

lemma max_value_policy:
  "snd (axp20x_battery_max_chg_current p) = Inr c \<Longrightarrow> c = policy_current p"
  using max_chg_current_value [of p]
  by (simp add: policy_current_def Let_def split: if_splits)

lemma no_fault_max:
  assumes "faults (regmap p) = []"
  shows "axp20x_battery_max_chg_current p = (p, Inr (policy_current p))"
proof -
  have "\<not> fault_at (regmap p) n" for n
    using assms by (simp add: fault_at_def)
  then have "snd (axp20x_battery_max_chg_current p) = Inr (policy_current p)"
    using max_chg_current_value [of p] by (simp add: policy_current_def Let_def)
  moreover have "fst (axp20x_battery_max_chg_current p) = p"
    using max_chg_current_state [of p] assms by auto
  ultimately show ?thesis
    by (simp add: prod_eq_iff)
qed

lemma upd_calls [simp]:
  "calls (fst (regmap_update_bits m r k v)) = calls m @ [(r, k, v)]"
  by (simp add: regmap_update_bits_def Let_def)

lemma upd_faults [simp]:
  "faults (fst (regmap_update_bits m r k v)) = drop 1 (faults m)"
  by (simp add: regmap_update_bits_def Let_def consume_drop)

lemma upd_cells_other [simp]:
  "r' \<noteq> r \<Longrightarrow> cells (fst (regmap_update_bits m r k v)) r' = cells m r'"
  by (simp add: regmap_update_bits_def Let_def)

lemma upd_cells_no_fault:
  "faults m = [] \<Longrightarrow>
     cells (fst (regmap_update_bits m r k v)) =
       (cells m)(r := (cells m r AND NOT (word_of_int k)) OR (word_of_int v AND word_of_int k))"
  by (simp add: regmap_update_bits_def Let_def next_fault_def)

lemma field_twice:
  "(((w AND NOT k) OR (v AND k)) AND NOT k) OR (v AND k) = (w AND NOT k) OR (v AND (k :: 8 word))"
  by (rule bit_eqI) (auto simp add: bit_simps)

lemma field_twice_15:
  "(((w AND - 16) OR (v AND 15)) AND - 16) OR (v AND 15) = (w AND - 16) OR (v AND (15 :: 8 word))"
  using field_twice [of w 15 v] by simp

lemma field_twice_64:
  "(((w AND - 65) OR 64) AND - 65) OR 64 = (w AND - 65) OR (64 :: 8 word)"
  using field_twice [of w 64 64] by simp

lemma reconfig_calls:
  "calls (regmap (axp20x_battery_chg_reconfig p)) =
     calls (regmap p)
       @ reconfig_writes (snd (axp20x_battery_max_chg_current p)) (charge_user_imax p)"
proof -
  obtain m' where "fst (axp20x_battery_max_chg_current p) = p\<lparr>regmap := m'\<rparr>"
      "calls m' = calls (regmap p)"
    using max_chg_current_state [of p] by blast
  then show ?thesis
    by (simp add: reconfig_unfold reconfig_writes_def power_supply_changed_def Let_def
          split: sum.splits)
qed

lemma reconfig_keeps:
  "capacity (axp20x_battery_chg_reconfig p) = capacity p"
  "cells (regmap (axp20x_battery_chg_reconfig p)) AXP20X_PWR_INPUT_STATUS
     = cells (regmap p) AXP20X_PWR_INPUT_STATUS"
  "cells (regmap (axp20x_battery_chg_reconfig p)) AXP20X_VBUS_IPSOUT_MGMT
     = cells (regmap p) AXP20X_VBUS_IPSOUT_MGMT"
proof -
  obtain m' where "fst (axp20x_battery_max_chg_current p) = p\<lparr>regmap := m'\<rparr>"
      "cells m' = cells (regmap p)"
    using max_chg_current_state [of p] by blast
  then show "capacity (axp20x_battery_chg_reconfig p) = capacity p"
  "cells (regmap (axp20x_battery_chg_reconfig p)) AXP20X_PWR_INPUT_STATUS
     = cells (regmap p) AXP20X_PWR_INPUT_STATUS"
  "cells (regmap (axp20x_battery_chg_reconfig p)) AXP20X_VBUS_IPSOUT_MGMT
     = cells (regmap p) AXP20X_VBUS_IPSOUT_MGMT"
    by (simp_all add: reconfig_unfold power_supply_changed_def Let_def split: sum.splits)
qed

lemma reconfig_policy: "policy_current (axp20x_battery_chg_reconfig p) = policy_current p"
  by (simp add: policy_current_def reconfig_keeps)

lemma reconfig_no_fault:
  assumes "faults (regmap p) = []"
  shows "faults (regmap (axp20x_battery_chg_reconfig p)) = []"
  using assms
  by (simp add: reconfig_unfold no_fault_max power_supply_changed_def Let_def)

lemma reconfig_regmap_no_fault:
  assumes "faults (regmap p) = []"
  shows "regmap (axp20x_battery_chg_reconfig p) =
     (let c = policy_current p;
          cm1 = min c (charge_user_imax p);
          cm2 = (if c_div (c_sub cm1 300000) 100000 > 15 then 1800000 else cm1)
      in if c < 0 then regmap p
         else if c = 0 then fst (regmap_update_bits (regmap p) AXP20X_PWR_OP_MODE 64 0)
         else fst (regmap_update_bits
                     (fst (regmap_update_bits (regmap p) AXP20X_CHRG_CTRL1 15
                             (c_div (c_sub cm2 300000) 100000)))
                     AXP20X_PWR_OP_MODE 64 64))"
  using assms
  by (simp add: reconfig_unfold no_fault_max power_supply_changed_def Let_def)

lemma reconfig_cells_twice:
  assumes "faults (regmap p) = []"
  shows "cells (regmap (axp20x_battery_chg_reconfig (axp20x_battery_chg_reconfig p)))
           = cells (regmap (axp20x_battery_chg_reconfig p))"
proof -
  let ?q = "axp20x_battery_chg_reconfig p"
  have nf: "faults (regmap ?q) = []"
    using assms by (rule reconfig_no_fault)
  have f1: "faults (fst (regmap_update_bits m r k v)) = []" if "faults m = []" for m r k v
    using that by simp
  have once: "cells (fst (regmap_update_bits m r k v)) =
       (cells m)(r := (cells m r AND NOT (word_of_int k)) OR (word_of_int v AND word_of_int k))"
    if "faults m = []" for m r k v
    using that by (rule upd_cells_no_fault)
  have cq: "cells (regmap ?q) =
     (let c = policy_current p;
          cm1 = min c (charge_user_imax p);
          cm2 = (if c_div (c_sub cm1 300000) 100000 > 15 then 1800000 else cm1)
      in if c < 0 then cells (regmap p)
         else if c = 0 then
           (cells (regmap p))(AXP20X_PWR_OP_MODE :=
              (cells (regmap p) AXP20X_PWR_OP_MODE AND NOT 64) OR (0 AND 64))
         else (cells (regmap p))
                (AXP20X_CHRG_CTRL1 :=
                   (cells (regmap p) AXP20X_CHRG_CTRL1 AND NOT 15)
                   OR (word_of_int (c_div (c_sub cm2 300000) 100000) AND 15),
                 AXP20X_PWR_OP_MODE :=
                   (cells (regmap p) AXP20X_PWR_OP_MODE AND NOT 64) OR (64 AND 64)))"
    using assms
    by (simp add: reconfig_regmap_no_fault Let_def once f1)
  have cqq: "cells (regmap (axp20x_battery_chg_reconfig ?q)) =
     (let c = policy_current p;
          cm1 = min c (charge_user_imax p);
          cm2 = (if c_div (c_sub cm1 300000) 100000 > 15 then 1800000 else cm1)
      in if c < 0 then cells (regmap ?q)
         else if c = 0 then
           (cells (regmap ?q))(AXP20X_PWR_OP_MODE :=
              (cells (regmap ?q) AXP20X_PWR_OP_MODE AND NOT 64) OR (0 AND 64))
         else (cells (regmap ?q))
                (AXP20X_CHRG_CTRL1 :=
                   (cells (regmap ?q) AXP20X_CHRG_CTRL1 AND NOT 15)
                   OR (word_of_int (c_div (c_sub cm2 300000) 100000) AND 15),
                 AXP20X_PWR_OP_MODE :=
                   (cells (regmap ?q) AXP20X_PWR_OP_MODE AND NOT 64) OR (64 AND 64)))"
    using nf
    by (simp add: reconfig_regmap_no_fault [OF nf] reconfig_policy reconfig_keeps_imax
          Let_def once f1)
  show ?thesis
    unfolding cqq unfolding cq
    by (simp add: Let_def fun_eq_iff field_twice_15 field_twice_64)
qed


lemma issued_reconfig:
  "issued p (axp20x_battery_chg_reconfig p) =
     reconfig_writes (snd (axp20x_battery_max_chg_current p)) (charge_user_imax p)"
  by (simp add: issued_def reconfig_calls)

lemma writes_current:
  assumes "(AXP20X_CHRG_CTRL1, 15, a) \<in> set (reconfig_writes r u)"
  shows "\<exists>c. r = Inr c \<and> reconfig_writes r u = reconfig_writes (Inr c) u
             \<and> a = snd (snd (hd (reconfig_writes (Inr c) u)))"
  using assms
  by (cases r) (auto simp add: reconfig_writes_def Let_def split: if_splits)

section \<open>The claims\<close>

subsection \<open>Unit decoding\<close>

text \<open>
  Claim C8. For every raw 12-bit register value, read without a bus fault, the
  battery voltage property is exactly the raw value times 1100, the battery current
  property exactly the raw value of the charge or the discharge current register pair
  times 500, and the temperature property exactly the raw value times 800: the 32-bit
  products never wrap and nothing is rounded. The raw value is below 4096. The
  temperature property reads the register pair \<^verbatim>\<open>AXP20X_BATT_V_H\<close>, as the source does.
\<close>

theorem decode_exact:
  assumes "faults (regmap p) = []"
  shows "snd (axp20x_battery_power_get_property p POWER_SUPPLY_PROP_VOLTAGE_NOW val)
           = Inr (Intval (raw12 (regmap p) AXP20X_BATT_V_H * 1100))
       \<and> snd (axp20x_battery_power_get_property p POWER_SUPPLY_PROP_CURRENT_NOW val)
           = Inr (Intval (raw12 (regmap p)
                   (if bit (cells (regmap p) AXP20X_PWR_INPUT_STATUS) 2
                    then AXP20X_BATT_CHRG_I_H else AXP20X_BATT_DISCHRG_I_H) * 500))
       \<and> snd (axp20x_battery_power_get_property p POWER_SUPPLY_PROP_TEMP val)
           = Inr (Intval (raw12 (regmap p) AXP20X_BATT_V_H * 800))
       \<and> 0 \<le> raw12 (regmap p) r \<and> raw12 (regmap p) r < 4096"
  using assms raw12_range [of "regmap p" r]
  by (simp add: axp20x_battery_power_get_property_def c_mul_raw12
        axp20x_battery_uv_to_temp_def uint_and_bits)

theorem decode_exact_witness:
  "faults (regmap (sample_power [])) = []
   \<and> snd (axp20x_battery_power_get_property (sample_power [])
            POWER_SUPPLY_PROP_VOLTAGE_NOW (Intval 0)) = Inr (Intval 1100000)
   \<and> snd (axp20x_battery_power_get_property (sample_power [])
            POWER_SUPPLY_PROP_CURRENT_NOW (Intval 0)) = Inr (Intval 0)
   \<and> snd (axp20x_battery_power_get_property (sample_power [])
            POWER_SUPPLY_PROP_TEMP (Intval 0)) = Inr (Intval 800000)"
  using decode_exact [of "sample_power []" "Intval 0" AXP20X_BATT_V_H]
  by (simp add: sample_defs raw12_def)

subsection \<open>The maximum charge current\<close>

text \<open>
  Claim C3. For every content of the source-status register, every bus current-limit
  field and every design capacity, \<^verbatim>\<open>axp20x_battery_max_chg_current\<close> returns the value
  of the specification's table: half the capacity when the mains source is present
  and available; otherwise, when the bus source is present and available, 0, 300000,
  600000 or half the capacity for the 100 mA, 500 mA, 900 mA and unlimited fields;
  otherwise 0. A failed read of the status register, or of the bus management
  register where it is read, is returned as the I/O error, with no default.
\<close>

theorem max_chg_current_table:
  "snd (axp20x_battery_max_chg_current p) =
     (let m = regmap p;
          st = cells m AXP20X_PWR_INPUT_STATUS;
          vb = cells m AXP20X_VBUS_IPSOUT_MGMT
      in
      if fault_at m 0 then Inl EIO
      else if \<not> (bit st 7 \<and> bit st 6) \<and> bit st 5 \<and> bit st 4 \<and> fault_at m 1 then Inl EIO
      else Inr (max_charge_current_spec (bit st 7) (bit st 6) (bit st 5) (bit st 4)
                  (climit_field (uint vb mod 4)) (capacity p)))"
  by (rule max_chg_current_value)

theorem max_chg_current_table_witness:
  "snd (axp20x_battery_max_chg_current (sample_power [])) = Inr 300000
   \<and> snd (axp20x_battery_max_chg_current (sample_power [False, True])) = Inl EIO"
  using max_chg_current_table [of "sample_power []"]
        max_chg_current_table [of "sample_power [False, True]"]
  by (simp add: sample_defs fault_at_def max_charge_current_spec_def climit_field_def
        bit_iff_odd)

subsection \<open>The interrupt handlers\<close>

text \<open>
  Claim C7. Every interrupt handler, run with the supply registered, does exactly
  what the event table says and then notifies once: battery inserted sets health
  Unknown and sets the charging-enable bit; battery removed sets Unknown and clears
  it; activation started sets Unknown; activation completed sets Good; overheat sets
  Overheat and clears the bit; under-temperature sets Cold; charging, charged, weak
  source and the two power-low events change nothing. No handler returns without the
  notification.
\<close>

theorem irq_handlers_table:
  assumes "has_supply p"
  shows "irq_funcs e p = Some (event_effect e p)"
  using assms by (rule irq_funcs_effect)

theorem irq_handlers_table_witness:
  "has_supply (sample_power [])
   \<and> irq_funcs BATT_PLUGIN (sample_power []) =
       Some ((sample_power [])
         \<lparr>regmap := \<lparr>cells = sample_cells(AXP20X_PWR_OP_MODE := 96), faults = [],
                     calls = [(AXP20X_PWR_OP_MODE, 64, 64)]\<rparr>,
          changed := 1\<rparr>)"
  using irq_handlers_table [of "sample_power []" BATT_PLUGIN]
  by (simp add: sample_defs event_effect_def event_table_def write_charging_enable_def
        fault_at_def set_bit_eq_or)

subsection \<open>Writing the maximum design voltage\<close>

text \<open>
  Claim C10. A write of the maximum-design-voltage property is refused with the
  invalid-argument error, without any register access or change of state, for every
  value other than 4100000, 4150000 and 4200000, 4360000 included. For these three
  values the write returns what the register update returns: success unless the bus
  access fails, and then bits 6 and 5 of the charge control register hold the field
  of the value, the other bits are kept, and reading the property back gives the
  value. A register whose field is 3 reads as 4360000.
\<close>

theorem set_voltage_max_design:
  "(v \<notin> {4100000, 4150000, 4200000} \<longrightarrow>
      axp20x_battery_power_set_property p POWER_SUPPLY_PROP_VOLTAGE_MAX_DESIGN (Intval v)
        = (p, Inl EINVAL))
   \<and> (v \<in> {4100000, 4150000, 4200000} \<longrightarrow>
        (case axp20x_battery_power_set_property p POWER_SUPPLY_PROP_VOLTAGE_MAX_DESIGN (Intval v) of
           (p', ret) \<Rightarrow>
             ret = (if fault_at (regmap p) 0 then Inl EIO else Inr ())
           \<and> cells (regmap p') =
               (if fault_at (regmap p) 0 then cells (regmap p)
                else (cells (regmap p))(AXP20X_CHRG_CTRL1 :=
                       (cells (regmap p) AXP20X_CHRG_CTRL1 AND NOT 96)
                       OR push_bit 5 (tgt_volt_field v)))
           \<and> (faults (regmap p) = [] \<longrightarrow>
                snd (axp20x_battery_power_get_property p'
                       POWER_SUPPLY_PROP_VOLTAGE_MAX_DESIGN val) = Inr (Intval v))))
   \<and> (faults (regmap p) = []
        \<and> bit (cells (regmap p) AXP20X_CHRG_CTRL1) 5
        \<and> bit (cells (regmap p) AXP20X_CHRG_CTRL1) 6 \<longrightarrow>
        snd (axp20x_battery_power_get_property p
               POWER_SUPPLY_PROP_VOLTAGE_MAX_DESIGN val) = Inr (Intval 4360000))"
proof -
  let ?set = "axp20x_battery_power_set_property p POWER_SUPPLY_PROP_VOLTAGE_MAX_DESIGN (Intval v)"
  have a: "v \<notin> {4100000, 4150000, 4200000} \<Longrightarrow> ?set = (p, Inl EINVAL)"
    by (simp add: set_vmax_unfold)
  have b1: "v \<in> {4100000, 4150000, 4200000} \<Longrightarrow>
              snd ?set = (if fault_at (regmap p) 0 then Inl EIO else Inr ())"
    by (simp add: set_vmax_unfold)
  have b2: "v \<in> {4100000, 4150000, 4200000} \<Longrightarrow>
              cells (regmap (fst ?set)) =
               (if fault_at (regmap p) 0 then cells (regmap p)
                else (cells (regmap p))(AXP20X_CHRG_CTRL1 :=
                       (cells (regmap p) AXP20X_CHRG_CTRL1 AND NOT 96)
                       OR push_bit 5 (tgt_volt_field v)))"
    by (simp add: set_vmax_unfold)
  have b3: "snd (axp20x_battery_power_get_property (fst ?set)
                       POWER_SUPPLY_PROP_VOLTAGE_MAX_DESIGN val) = Inr (Intval v)"
    if "v \<in> {4100000, 4150000, 4200000}" "faults (regmap p) = []"
  proof -
    have nf: "faults (regmap (fst ?set)) = []"
      using that by (simp add: set_vmax_unfold consume_nil)
    have "\<not> fault_at (regmap p) 0"
      using that by (simp add: fault_at_def)
    then have "cells (regmap (fst ?set)) AXP20X_CHRG_CTRL1 AND 96
                 = push_bit 5 (tgt_volt_field v) AND 96"
      using that(1) by (simp add: b2 field_and [simplified])
    then show ?thesis
      using that(1) by (auto simp add: get_vmax [OF nf] tgt_volt_field_def)
  qed
  have c: "snd (axp20x_battery_power_get_property p
               POWER_SUPPLY_PROP_VOLTAGE_MAX_DESIGN val) = Inr (Intval 4360000)"
    if "faults (regmap p) = []" "bit (cells (regmap p) AXP20X_CHRG_CTRL1) 5"
       "bit (cells (regmap p) AXP20X_CHRG_CTRL1) 6"
    using that by (simp add: get_vmax and96_both)
  show ?thesis
    using a b1 b2 b3 c by (simp add: case_prod_beta)
qed

theorem set_voltage_max_design_witness:
  "axp20x_battery_power_set_property (sample_power [])
       POWER_SUPPLY_PROP_VOLTAGE_MAX_DESIGN (Intval 4360000) = (sample_power [], Inl EINVAL)
   \<and> snd (axp20x_battery_power_set_property (sample_power [])
       POWER_SUPPLY_PROP_VOLTAGE_MAX_DESIGN (Intval 4200000)) = Inr ()
   \<and> snd (axp20x_battery_power_get_property
            (fst (axp20x_battery_power_set_property (sample_power [])
                    POWER_SUPPLY_PROP_VOLTAGE_MAX_DESIGN (Intval 4200000)))
            POWER_SUPPLY_PROP_VOLTAGE_MAX_DESIGN (Intval 0)) = Inr (Intval 4200000)
   \<and> snd (axp20x_battery_power_get_property (sample_power [])
            POWER_SUPPLY_PROP_VOLTAGE_MAX_DESIGN (Intval 0)) = Inr (Intval 4360000)"
  using set_voltage_max_design [of 4360000 "sample_power []" "Intval 0"]
        set_voltage_max_design [of 4200000 "sample_power []" "Intval 0"]
  by (simp add: sample_defs fault_at_def case_prod_beta bit_iff_odd)

subsection \<open>The periodic poll\<close>

text \<open>
  Claim C1, as the code has it. The poll tests the dead-cell threshold first and the
  temperature bounds afterwards, and the later test overwrites the earlier result. So
  the temperature checks have priority: in every poll cycle with the battery present
  and no failed read, when a temperature range is configured and the value read for
  the temperature test is below \<open>tbatt_min\<close> the health is Cold, when it is above
  \<open>tbatt_max\<close> the health is Overheat, in both cases also when the voltage is below
  the dead threshold; the health is Dead only when the voltage is below the threshold
  and no configured bound is violated. The temperature test reads the register pair
  of the battery voltage, so both tests see the same raw value.
\<close>

theorem poll_temperature_priority:
  assumes "faults (regmap p) = []" "bit (cells (regmap p) AXP20X_PWR_OP_MODE) 5"
  shows "health (axp20x_battery_poll p) =
     (let v = raw12 (regmap p) AXP20X_BATT_V_H in
      if temp_configured p \<and> v < tbatt_min p then POWER_SUPPLY_HEALTH_COLD
      else if temp_configured p \<and> v > tbatt_max p then POWER_SUPPLY_HEALTH_OVERHEAT
      else if v * 1100 < 2000000 then POWER_SUPPLY_HEALTH_DEAD
      else POWER_SUPPLY_HEALTH_UNKNOWN)"
  using assms raw12_range [of "regmap p" AXP20X_BATT_V_H]
  by (auto simp add: axp20x_battery_poll_def Let_def uint_and_bits0 c_mul_raw12 temp_configured_def)

theorem poll_temperature_priority_witness:
  "faults (regmap (sample_power [])) = []
   \<and> bit (cells (regmap (sample_power [])) AXP20X_PWR_OP_MODE) 5
   \<and> health (axp20x_battery_poll (sample_power [])) = POWER_SUPPLY_HEALTH_COLD
   \<and> health (axp20x_battery_poll ((sample_power [])\<lparr>tbatt_min := 0, tbatt_max := 0\<rparr>))
       = POWER_SUPPLY_HEALTH_DEAD"
  using poll_temperature_priority [of "sample_power []"]
        poll_temperature_priority [of "(sample_power [])\<lparr>tbatt_min := 0, tbatt_max := 0\<rparr>"]
  by (simp add: sample_defs raw12_def temp_configured_def bit_iff_odd)

text \<open>
  The claim as stated fails: the battery is present, the raw voltage 1000 is below the
  dead threshold (1000 * 1100 < 2000000) and below the configured \<open>tbatt_min\<close> of
  2000, and the poll stores Cold, not Dead.
\<close>

theorem poll_dead_priority_counterexample:
  "bit (cells (regmap (sample_power [])) AXP20X_PWR_OP_MODE) 5
   \<and> raw12 (regmap (sample_power [])) AXP20X_BATT_V_H * 1100 < 2000000
   \<and> tbatt_min (sample_power []) \<noteq> 0
   \<and> raw12 (regmap (sample_power [])) AXP20X_BATT_V_H < tbatt_min (sample_power [])
   \<and> health (axp20x_battery_poll (sample_power [])) = POWER_SUPPLY_HEALTH_COLD
   \<and> health (axp20x_battery_poll (sample_power [])) \<noteq> POWER_SUPPLY_HEALTH_DEAD"
  by (simp add: sample_defs raw12_def bit_iff_odd axp20x_battery_poll_def regmap_defs
        poll_out_def power_supply_changed_def c_mul_def s32_def)

text \<open>
  Claim C2, as the code has it. The poll starts its sample with percent 0 and replaces
  it only when the gauge register is read. So after every poll cycle whose first read
  (the battery-present bit) succeeds, the stored percent is the 7-bit gauge field when
  the battery is present and the gauge read succeeds, and 0 otherwise: when the
  battery is absent, and also when the gauge read fails. The gauge read is the fourth
  bus access of the cycle, or the third when the read of the voltage's high byte
  failed.
\<close>

theorem poll_percent_sample:
  assumes "\<not> fault_at (regmap p) 0"
  shows "percent (axp20x_battery_poll p) =
     (if bit (cells (regmap p) AXP20X_PWR_OP_MODE) 5
         \<and> \<not> fault_at (regmap p) (if fault_at (regmap p) 1 then 2 else 3)
      then uint (cells (regmap p) AXP20X_FG_RES) mod 128 else 0)"
  using assms
  by (auto simp add: axp20x_battery_poll_def read_at read12_at fault_at_consume Let_def and127_mod
       uint_and_bits0 numeral_2_eq_2 numeral_3_eq_3)

theorem poll_percent_sample_witness:
  "\<not> fault_at (regmap (sample_power [False, False, False, True])) 0
   \<and> percent (axp20x_battery_poll (sample_power [False, False, False, True])) = 0
   \<and> \<not> fault_at (regmap ((sample_power [])\<lparr>percent := 0\<rparr>)) 0
   \<and> percent (axp20x_battery_poll ((sample_power [])\<lparr>percent := 0\<rparr>)) = 55"
  using poll_percent_sample [of "sample_power [False, False, False, True]"]
        poll_percent_sample [of "(sample_power [])\<lparr>percent := 0\<rparr>"]
  by (simp add: sample_defs fault_at_def bit_iff_odd)

text \<open>
  The claim as stated fails: the battery is present, the stored percent is 55, the
  fourth bus access (the gauge read) fails, and the poll stores percent 0.
\<close>

theorem poll_percent_kept_counterexample:
  "bit (cells (regmap (sample_power [False, False, False, True])) AXP20X_PWR_OP_MODE) 5
   \<and> percent (sample_power [False, False, False, True]) = 55
   \<and> percent (axp20x_battery_poll (sample_power [False, False, False, True])) = 0"
  by (simp add: sample_defs bit_iff_odd axp20x_battery_poll_def regmap_defs
        poll_out_def power_supply_changed_def c_mul_def s32_def)

text \<open>
  Claim C6, as the code has it. A poll cycle stores health and percent together: after
  a cycle whose first read succeeds, the stored pair is the cycle's sample, whatever
  pair was stored before. The cycle raises a notification exactly when one of the two
  differs from the pair stored before and the supply is registered; a cycle whose
  first read fails changes neither and does not notify. The interrupt handlers write
  the health alone, never the percent, and notify every time, also when nothing
  changed.
\<close>

theorem health_percent_notification:
  "changed (axp20x_battery_poll p) =
     (if has_supply p \<and> (health (axp20x_battery_poll p) \<noteq> health p
                          \<or> percent (axp20x_battery_poll p) \<noteq> percent p)
      then Suc (changed p) else changed p)
   \<and> (\<not> fault_at (regmap p) 0 \<longrightarrow>
        health (axp20x_battery_poll (p\<lparr>health := h0, percent := c0\<rparr>))
          = health (axp20x_battery_poll p)
        \<and> percent (axp20x_battery_poll (p\<lparr>health := h0, percent := c0\<rparr>))
          = percent (axp20x_battery_poll p))
   \<and> (fault_at (regmap p) 0 \<longrightarrow>
        health (axp20x_battery_poll p) = health p
        \<and> percent (axp20x_battery_poll p) = percent p)
   \<and> (has_supply p \<longrightarrow>
        (case irq_funcs e p of
           None \<Rightarrow> False
         | Some p' \<Rightarrow> percent p' = percent p \<and> changed p' = Suc (changed p)))"
proof -
  have "fault_at (regmap p) 0 \<Longrightarrow>
          health (axp20x_battery_poll p) = health p
          \<and> percent (axp20x_battery_poll p) = percent p"
    using poll_shape [of p] by auto
  moreover have "has_supply p \<Longrightarrow>
        (case irq_funcs e p of
           None \<Rightarrow> False
         | Some p' \<Rightarrow> percent p' = percent p \<and> changed p' = Suc (changed p))"
    by (simp add: irq_funcs_effect event_effect_def)
  moreover have "\<not> fault_at (regmap p) 0 \<Longrightarrow>
        health (axp20x_battery_poll (p\<lparr>health := h0, percent := c0\<rparr>))
          = health (axp20x_battery_poll p)
        \<and> percent (axp20x_battery_poll (p\<lparr>health := h0, percent := c0\<rparr>))
          = percent (axp20x_battery_poll p)"
    by (rule poll_stored_pair)
  ultimately show ?thesis
    using poll_changed_gen [of p] by blast
qed

theorem health_percent_notification_witness:
  "changed (axp20x_battery_poll (sample_power [])) = 1
   \<and> health (axp20x_battery_poll (sample_power [])) = POWER_SUPPLY_HEALTH_COLD
   \<and> percent (axp20x_battery_poll (sample_power [])) = 55
   \<and> health (axp20x_battery_poll
         ((sample_power [])\<lparr>health := POWER_SUPPLY_HEALTH_GOOD, percent := 7\<rparr>))
       = POWER_SUPPLY_HEALTH_COLD
   \<and> percent (axp20x_battery_poll
         ((sample_power [])\<lparr>health := POWER_SUPPLY_HEALTH_GOOD, percent := 7\<rparr>)) = 55
   \<and> changed (axp20x_battery_poll (sample_power [True])) = 0
   \<and> irq_funcs BATT_COLD (sample_power [])
       = Some ((sample_power [])\<lparr>changed := 1, health := POWER_SUPPLY_HEALTH_COLD\<rparr>)"
  using health_percent_notification
          [where p = "sample_power []" and e = BATT_COLD
             and ?h0.0 = POWER_SUPPLY_HEALTH_GOOD and ?c0.0 = 7]
        health_percent_notification
          [where p = "sample_power [True]" and e = BATT_COLD
             and ?h0.0 = POWER_SUPPLY_HEALTH_GOOD and ?c0.0 = 7]
  by (simp add: sample_defs fault_at_def axp20x_battery_poll_def regmap_defs
        poll_out_def power_supply_changed_def c_mul_def s32_def
        axp20x_irq_batt_low_temp_def)

text \<open>
  The claim as stated fails: the health is Good, the activation-completed handler
  stores Good again, health and percent are what they were, and a notification is
  raised all the same.
\<close>

theorem notification_iff_change_counterexample:
  "health ((sample_power [])\<lparr>health := POWER_SUPPLY_HEALTH_GOOD\<rparr>) = POWER_SUPPLY_HEALTH_GOOD
   \<and> changed ((sample_power [])\<lparr>health := POWER_SUPPLY_HEALTH_GOOD\<rparr>) = 0
   \<and> irq_funcs BATT_ACTIVATED ((sample_power [])\<lparr>health := POWER_SUPPLY_HEALTH_GOOD\<rparr>)
       = Some ((sample_power [])\<lparr>health := POWER_SUPPLY_HEALTH_GOOD, changed := 1\<rparr>)"
  by (simp add: sample_defs axp20x_irq_batt_activated_def power_supply_changed_def)

subsection \<open>Writing the target charge current\<close>

text \<open>
  Claim C5, as the code has it. The write tests only that the field of the value,
  (v - 300000) / 100000 with C's truncating division, fits the four bits and that v is
  not below 300000. So for every 32-bit v the write fails with the invalid-argument
  error, with the state as it was, exactly when v < 300000 or v > 1899999; every other
  value, on a 100 mA step or not, is stored as the ceiling and followed by the
  reconfiguration, which keeps the ceiling. 299999 and 1900000 fail; 300000, 1800000,
  1800001 and 1899999 succeed.
\<close>

theorem set_current_max:
  assumes "int32 v"
  shows "axp20x_battery_power_set_property p POWER_SUPPLY_PROP_CURRENT_MAX (Intval v) =
           (if v < 300000 \<or> 1899999 < v then (p, Inl EINVAL)
            else (axp20x_battery_chg_reconfig (p\<lparr>charge_user_imax := v\<rparr>), Inr ()))
         \<and> charge_user_imax
             (fst (axp20x_battery_power_set_property p POWER_SUPPLY_PROP_CURRENT_MAX (Intval v)))
           = (if v < 300000 \<or> 1899999 < v then charge_user_imax p else v)"
proof -
  have "axp20x_battery_power_set_property p POWER_SUPPLY_PROP_CURRENT_MAX (Intval v) =
           (if c_div (c_sub v 300000) 100000 > 15 \<or> v < 300000 then (p, Inl EINVAL)
            else (axp20x_battery_chg_reconfig (p\<lparr>charge_user_imax := v\<rparr>), Inr ()))"
    by (simp add: axp20x_battery_power_set_property_def)
  then show ?thesis
    by (simp add: current_max_refused [OF assms] reconfig_keeps_imax)
qed


theorem set_current_max_witness:
  "int32 1800001
   \<and> snd (axp20x_battery_power_set_property (sample_power [])
            POWER_SUPPLY_PROP_CURRENT_MAX (Intval 1800001)) = Inr ()
   \<and> charge_user_imax (fst (axp20x_battery_power_set_property (sample_power [])
            POWER_SUPPLY_PROP_CURRENT_MAX (Intval 1800001))) = 1800001
   \<and> int32 1900000
   \<and> axp20x_battery_power_set_property (sample_power [])
            POWER_SUPPLY_PROP_CURRENT_MAX (Intval 1900000) = (sample_power [], Inl EINVAL)"
  using set_current_max [of 1800001 "sample_power []"] set_current_max [of 1900000 "sample_power []"]
  by (simp add: int32_def reconfig_keeps_imax)

text \<open>
  The claim as stated fails: 1800001 is accepted and becomes the ceiling.
\<close>

theorem set_current_max_counterexample:
  "snd (axp20x_battery_power_set_property (sample_power [])
            POWER_SUPPLY_PROP_CURRENT_MAX (Intval 1800001)) = Inr ()
   \<and> charge_user_imax (sample_power []) = 2000000
   \<and> charge_user_imax (fst (axp20x_battery_power_set_property (sample_power [])
            POWER_SUPPLY_PROP_CURRENT_MAX (Intval 1800001))) = 1800001"
  by (simp add: sample_defs axp20x_battery_power_set_property_def axp20x_battery_chg_reconfig_def
        axp20x_battery_max_chg_current_def regmap_defs power_supply_changed_def
        c_sub_def c_div_def s32_def signed_divide_int_def)

subsection \<open>Reconfiguring the charge current\<close>

text \<open>
  Claim C4, as the code has it. Every call recomputes the maximum charge current. When
  that fails, or is negative, the call returns at once: nothing is written and no
  notification is sent. When it is 0, the call clears the charging-enable bit, writes
  no current field and notifies. When it is positive and the smaller of it and the
  user's ceiling is at least 300000 (and a 32-bit value), the call writes the current
  field of that minimum clamped to 300000 + 15 * 100000, sets the charging-enable bit
  and notifies. Computing the maximum itself writes and notifies nothing. (A minimum
  below 300000 is left open here.)
\<close>

theorem chg_reconfig_effect:
  "(let p1 = fst (axp20x_battery_max_chg_current p) in
    (case snd (axp20x_battery_max_chg_current p) of
       Inl e \<Rightarrow> axp20x_battery_chg_reconfig p = p1
     | Inr c \<Rightarrow>
         (c < 0 \<longrightarrow> axp20x_battery_chg_reconfig p = p1)
       \<and> (c = 0 \<longrightarrow>
            axp20x_battery_chg_reconfig p =
              power_supply_changed
                (p1\<lparr>regmap := write_charging_enable False (regmap p1)\<rparr>))
       \<and> (0 < c \<and> 300000 \<le> min c (charge_user_imax p)
              \<and> min c (charge_user_imax p) < 2147483648 \<longrightarrow>
            axp20x_battery_chg_reconfig p =
              power_supply_changed
                (p1\<lparr>regmap := write_charging_enable True
                     (write_current_field (current_field (min c (charge_user_imax p)))
                        (regmap p1))\<rparr>)))
    \<and> changed p1 = changed p
    \<and> calls (regmap p1) = calls (regmap p)
    \<and> cells (regmap p1) = cells (regmap p))"
proof -
  obtain m' where p1: "fst (axp20x_battery_max_chg_current p) = p\<lparr>regmap := m'\<rparr>"
      and m': "cells m' = cells (regmap p)" "calls m' = calls (regmap p)"
    using max_chg_current_state [of p] by blast
  have en: "fst (regmap_update_bits m AXP20X_PWR_OP_MODE 64 64) = write_charging_enable True m"
           "fst (regmap_update_bits m AXP20X_PWR_OP_MODE 64 0) = write_charging_enable False m" for m
    using update_charging [of m True] update_charging [of m False] by simp_all
  have pos: "axp20x_battery_chg_reconfig p =
              power_supply_changed
                (p\<lparr>regmap := write_charging_enable True
                     (write_current_field (current_field (min c (charge_user_imax p))) m')\<rparr>)"
    if "snd (axp20x_battery_max_chg_current p) = Inr c" "0 < c"
       "300000 \<le> min c (charge_user_imax p)" "min c (charge_user_imax p) < 2147483648" for c
  proof -
    define x where "x = min c (charge_user_imax p)"
    have "axp20x_battery_chg_reconfig p =
            power_supply_changed
              (p\<lparr>regmap := write_charging_enable True
                 (fst (regmap_update_bits m' AXP20X_CHRG_CTRL1 15
                   (c_div (c_sub (if c_div (c_sub x 300000) 100000 > 15 then 1800000 else x)
                             300000) 100000)))\<rparr>)"
      using that(1,2)
      by (simp add: reconfig_unfold p1 Let_def en x_def split del: if_split cong: if_cong)
    also have "c_div (c_sub (if c_div (c_sub x 300000) 100000 > 15 then 1800000 else x)
                        300000) 100000 = current_field x"
      using that(3,4) unfolding x_def by (rule current_field_code(1))
    also have "fst (regmap_update_bits m' AXP20X_CHRG_CTRL1 15 (current_field x))
                 = write_current_field (current_field x) m'"
      using that(3,4) unfolding x_def by (intro update_current current_field_code)
    finally show ?thesis
      by (simp add: x_def)
  qed
  show ?thesis
    using pos
    by (simp add: reconfig_unfold p1 m' Let_def en split: sum.splits)
qed

theorem chg_reconfig_effect_witness:
  "axp20x_battery_chg_reconfig (sample_power []) =
     (sample_power [])
       \<lparr>regmap := \<lparr>cells = sample_cells(AXP20X_CHRG_CTRL1 := 96, AXP20X_PWR_OP_MODE := 96),
                   faults = [],
                   calls = [(AXP20X_CHRG_CTRL1, 15, 0), (AXP20X_PWR_OP_MODE, 64, 64)]\<rparr>,
        changed := 1\<rparr>
   \<and> axp20x_battery_chg_reconfig (on_battery_power []) =
     (on_battery_power [])
       \<lparr>regmap := \<lparr>cells = sample_cells(AXP20X_PWR_INPUT_STATUS := 0, AXP20X_PWR_OP_MODE := 32),
                   faults = [],
                   calls = [(AXP20X_PWR_OP_MODE, 64, 0)]\<rparr>,
        changed := 1\<rparr>"
  using chg_reconfig_effect [of "sample_power []"] chg_reconfig_effect [of "on_battery_power []"]
  by (simp add: on_battery_power_def sample_defs axp20x_battery_max_chg_current_def regmap_defs
        power_supply_changed_def write_charging_enable_def write_current_field_def
        current_field_def fault_at_def set_bit_eq_or unset_bit_eq_and_not)

text \<open>
  The claim as stated fails: when the read of the source status fails, the call
  returns without a notification.
\<close>

theorem chg_reconfig_notify_counterexample:
  "snd (axp20x_battery_max_chg_current (sample_power [True])) = Inl EIO
   \<and> changed (sample_power [True]) = 0
   \<and> changed (axp20x_battery_chg_reconfig (sample_power [True])) = 0"
  by (simp add: sample_defs axp20x_battery_chg_reconfig_def axp20x_battery_max_chg_current_def
        regmap_defs)

text \<open>
  Below 300000 the field is not the clamped one. With a 400 mAh battery on mains the
  maximum is 200000; the quotient (200000 - 300000) / 100000 is -1, the register update
  masks it to 15, and the target current then reads back as 1800000.
\<close>

lemma small_battery_current_field:
  "snd (axp20x_battery_max_chg_current small_battery_power) = Inr 200000
   \<and> issued small_battery_power (axp20x_battery_chg_reconfig small_battery_power)
       = [(AXP20X_CHRG_CTRL1, 15, - 1), (AXP20X_PWR_OP_MODE, 64, 64)]
   \<and> snd (axp20x_battery_power_get_property
            (axp20x_battery_chg_reconfig small_battery_power)
            POWER_SUPPLY_PROP_CURRENT_MAX (Intval 0)) = Inr (Intval 1800000)"
  by (simp add: small_battery_power_def issued_def sample_defs axp20x_battery_chg_reconfig_def
        axp20x_battery_max_chg_current_def axp20x_battery_power_get_property_def regmap_defs
        power_supply_changed_def c_add_def c_mul_def c_sub_def c_div_def s32_def
        signed_divide_int_def)

subsection \<open>Reconfiguring twice\<close>

text \<open>
  Claim C9. Calling \<^verbatim>\<open>axp20x_battery_chg_reconfig\<close> twice in a row, with nothing else
  touching the registers, writes the same current field both times. Whatever the bus
  faults, a current-field write issued by the second call carries the value of the one
  issued by the first. When no bus access fails, the second call issues exactly the
  register updates of the first, and leaves every register as the first call left it.
\<close>

theorem chg_reconfig_idempotent:
  "(faults (regmap p) = [] \<longrightarrow>
      issued (axp20x_battery_chg_reconfig p)
             (axp20x_battery_chg_reconfig (axp20x_battery_chg_reconfig p))
        = issued p (axp20x_battery_chg_reconfig p)
      \<and> cells (regmap (axp20x_battery_chg_reconfig (axp20x_battery_chg_reconfig p)))
        = cells (regmap (axp20x_battery_chg_reconfig p)))
   \<and> ((AXP20X_CHRG_CTRL1, 15, a) \<in> set (issued p (axp20x_battery_chg_reconfig p))
        \<and> (AXP20X_CHRG_CTRL1, 15, b)
            \<in> set (issued (axp20x_battery_chg_reconfig p)
                         (axp20x_battery_chg_reconfig (axp20x_battery_chg_reconfig p)))
        \<longrightarrow> a = b)"
proof -
  let ?q = "axp20x_battery_chg_reconfig p"
  have iq: "charge_user_imax ?q = charge_user_imax p"
    by (rule reconfig_keeps_imax)
  have one: "issued ?q (axp20x_battery_chg_reconfig ?q) = issued p ?q
             \<and> cells (regmap (axp20x_battery_chg_reconfig ?q)) = cells (regmap ?q)"
    if nf: "faults (regmap p) = []"
  proof -
    have "faults (regmap ?q) = []"
      using nf by (rule reconfig_no_fault)
    then have "snd (axp20x_battery_max_chg_current ?q) = Inr (policy_current p)"
      by (simp add: no_fault_max reconfig_policy)
    moreover have "snd (axp20x_battery_max_chg_current p) = Inr (policy_current p)"
      using nf by (simp add: no_fault_max)
    ultimately show ?thesis
      using reconfig_cells_twice [OF nf] by (simp add: issued_reconfig iq)
  qed
  have two: "a = b"
    if a: "(AXP20X_CHRG_CTRL1, 15, a) \<in> set (issued p ?q)"
    and b: "(AXP20X_CHRG_CTRL1, 15, b) \<in> set (issued ?q (axp20x_battery_chg_reconfig ?q))"
  proof -
    obtain c where c: "snd (axp20x_battery_max_chg_current p) = Inr c"
        "a = snd (snd (hd (reconfig_writes (Inr c) (charge_user_imax p))))"
      using a writes_current unfolding issued_reconfig by blast
    obtain d where d: "snd (axp20x_battery_max_chg_current ?q) = Inr d"
        "b = snd (snd (hd (reconfig_writes (Inr d) (charge_user_imax p))))"
      using b writes_current unfolding issued_reconfig iq by blast
    have "c = policy_current p"
      using c(1) by (rule max_value_policy)
    moreover have "d = policy_current p"
      using max_value_policy [OF d(1)] by (simp add: reconfig_policy)
    ultimately show ?thesis
      using c(2) d(2) by simp
  qed
  show ?thesis
    using one two by blast
qed

theorem chg_reconfig_idempotent_witness:
  "faults (regmap (sample_power [])) = []
   \<and> issued (sample_power []) (axp20x_battery_chg_reconfig (sample_power []))
       = [(AXP20X_CHRG_CTRL1, 15, 0), (AXP20X_PWR_OP_MODE, 64, 64)]
   \<and> issued (axp20x_battery_chg_reconfig (sample_power []))
             (axp20x_battery_chg_reconfig (axp20x_battery_chg_reconfig (sample_power [])))
       = [(AXP20X_CHRG_CTRL1, 15, 0), (AXP20X_PWR_OP_MODE, 64, 64)]"
  using chg_reconfig_idempotent [of "sample_power []" 0 0]
  by (simp add: issued_def sample_defs axp20x_battery_chg_reconfig_def
        axp20x_battery_max_chg_current_def regmap_defs power_supply_changed_def
        c_sub_def c_div_def s32_def signed_divide_int_def)

end
